theory Spec2Isabelle
  imports Complex_Main "HOL-Library.Word" "HOL-Library.Log_Nat"
begin

unbundle bit_operations_syntax

section \<open>Strings and byte streams\<close>

text \<open>
  An \<open>iString\<close> holds UTF-8 bytes; it is a \<^typ>\<open>string\<close> here, one \<^typ>\<open>char\<close> per byte.
  The string and stream primitives come from the the_Foundation library that the program
  links against; they are written out below with the behaviour the program relies on.
\<close>

fun startsWith :: "string \<Rightarrow> string \<Rightarrow> bool" where
  "startsWith s [] = True"
| "startsWith [] (p # ps) = False"
| "startsWith (c # cs) (p # ps) = (c = p \<and> startsWith cs ps)"

text \<open>\<open>indexOfCStr_String\<close>: position of the first occurrence, \<open>iInvalidPos\<close> is \<open>None\<close>.\<close>

fun indexOfCStr :: "string \<Rightarrow> string \<Rightarrow> nat option" where
  "indexOfCStr [] p = (if p = [] then Some 0 else None)"
| "indexOfCStr (c # cs) p =
     (if startsWith (c # cs) p then Some 0
      else map_option Suc (indexOfCStr cs p))"

type_synonym iStream = string

definition byteAt :: "iStream \<Rightarrow> nat \<Rightarrow> nat" where
  "byteAt ins i = (if i < length ins then of_char (ins ! i) else 0)"

text \<open>Integers are written least significant byte first; a read past the end yields zero bytes.\<close>

definition writeU16_Stream :: "iStream \<Rightarrow> 16 word \<Rightarrow> iStream" where
  "writeU16_Stream outs v = outs @ [char_of (unat v), char_of (unat v div 256)]"

definition readU16_Stream :: "iStream \<Rightarrow> 16 word \<times> iStream" where
  "readU16_Stream ins = (word_of_nat (byteAt ins 0 + 256 * byteAt ins 1), drop 2 ins)"

definition writeU32_Stream :: "iStream \<Rightarrow> 32 word \<Rightarrow> iStream" where
  "writeU32_Stream outs v =
     outs @ [char_of (unat v), char_of (unat v div 256),
             char_of (unat v div 65536), char_of (unat v div 16777216)]"

definition readU32_Stream :: "iStream \<Rightarrow> 32 word \<times> iStream" where
  "readU32_Stream ins =
     (word_of_nat (byteAt ins 0 + 256 * byteAt ins 1 + 65536 * byteAt ins 2
                   + 16777216 * byteAt ins 3), drop 4 ins)"

text \<open>\<open>serialize_String\<close>: the byte count as a 32-bit prefix, then the bytes.\<close>

definition serialize_String :: "string \<Rightarrow> iStream \<Rightarrow> iStream" where
  "serialize_String s outs = writeU32_Stream outs (word_of_nat (length s)) @ s"

definition deserialize_String :: "iStream \<Rightarrow> string \<times> iStream" where
  "deserialize_String ins =
     (case readU32_Stream ins of (n, rest) \<Rightarrow> (take (unat n) rest, drop (unat n) rest))"

section \<open>Persistent document state\<close>

text \<open>
  \<open>enum iReloadInterval\<close>: \<open>never\<close> is 0, \<open>minute\<close> 1, \<open>fiveMinutes\<close> 2,
  \<open>fifteenMinutes\<close> 3, \<open>hour\<close> 4, \<open>fourHours\<close> 5, \<open>twicePerDay\<close> 6, \<open>day\<close> 7 and
  \<open>max_ReloadInterval\<close> 8. The field is assigned from a command argument, so it is an
  \<^typ>\<open>int\<close>.
\<close>

definition max_ReloadInterval :: int where
  "max_ReloadInterval = 8"

definition times :: "int list" where
  "times = [0, 1, 5, 15, 60, 4 * 60, 12 * 60, 24 * 60]"

definition seconds_ReloadInterval :: "int \<Rightarrow> int" where
  "seconds_ReloadInterval d =
     (if d < 0 \<or> d \<ge> max_ReloadInterval then 0 else times ! nat d)"

definition labels :: "string list" where
  "labels = [''Never'', ''1 minute'', ''5 minutes'', ''15 minutes'', ''1 hour'', ''4 hours'',
             ''12 hours'', ''Once per day'']"

definition label_ReloadInterval :: "int \<Rightarrow> string option" where
  "label_ReloadInterval d =
     (if d < 0 \<or> d \<ge> max_ReloadInterval then None else Some (labels ! nat d))"

text \<open>
  The navigation history is owned by another module; only its serialized form passes
  through here, so it is kept as the opaque bytes that \<open>serialize_History\<close> writes and
  \<open>deserialize_History\<close> reads back as the rest of the stream.
\<close>

record PersistentDocumentState =
  history :: string
  url :: string
  reloadInterval :: int

definition init_PersistentDocumentState :: PersistentDocumentState where
  "init_PersistentDocumentState = \<lparr> history = [], url = [], reloadInterval = 0 \<rparr>"

definition serialize_History :: "string \<Rightarrow> iStream \<Rightarrow> iStream" where
  "serialize_History h outs = outs @ h"

definition deserialize_History :: "iStream \<Rightarrow> string \<times> iStream" where
  "deserialize_History ins = (ins, [])"

definition serialize_PersistentDocumentState ::
  "PersistentDocumentState \<Rightarrow> iStream \<Rightarrow> iStream" where
  "serialize_PersistentDocumentState d outs =
     (let outs1 = serialize_String (url d) outs;
          outs2 = writeU16_Stream outs1 (word_of_int (reloadInterval d AND 7))
      in serialize_History (history d) outs2)"

definition corruptionMarker :: string where
  "corruptionMarker = '' ptr:0x''"

definition deserialize_PersistentDocumentState ::
  "PersistentDocumentState \<Rightarrow> iStream \<Rightarrow> PersistentDocumentState \<times> iStream" where
  "deserialize_PersistentDocumentState d ins =
     (case deserialize_String ins of (u, ins1) \<Rightarrow>
        let u' = (if indexOfCStr u corruptionMarker \<noteq> None then [] else u) in
        case readU16_Stream ins1 of (params, ins2) \<Rightarrow>
          case deserialize_History ins2 of (h, ins3) \<Rightarrow>
            (d\<lparr> url := u', reloadInterval := uint params AND 7, history := h \<rparr>, ins3))"

section \<open>Animated scalars\<close>

text \<open>
  \<open>struct Impl_Anim\<close> has two \<open>float\<close> values and two \<open>uint32_t\<close> tick counts. The
  floats are taken as real numbers, so the arithmetic below is exact where the program
  rounds. The flag bits \<open>easeIn\<close>, \<open>easeOut\<close> and \<open>softer\<close> are the members of a set;
  \<open>easeBoth_AnimFlag\<close> is the mask of both easing bits.
\<close>

datatype iAnimFlag = easeIn_AnimFlag | easeOut_AnimFlag | softer_AnimFlag

definition easeBoth_AnimFlag :: "iAnimFlag set" where
  "easeBoth_AnimFlag = {easeIn_AnimFlag, easeOut_AnimFlag}"

record Anim =
  anim_from :: real
  anim_to :: real
  anim_when :: "32 word"
  anim_due :: "32 word"
  anim_flags :: "iAnimFlag set"

definition isFinished_Anim :: "Anim \<Rightarrow> 32 word \<Rightarrow> bool" where
  "isFinished_Anim d frameTime \<longleftrightarrow> anim_from d = anim_to d \<or> frameTime \<ge> anim_due d"

definition init_Anim :: "real \<Rightarrow> 32 word \<Rightarrow> Anim" where
  "init_Anim v ticks =
     \<lparr> anim_from = v, anim_to = v, anim_when = ticks, anim_due = ticks, anim_flags = {} \<rparr>"

definition pos_Anim :: "Anim \<Rightarrow> 32 word \<Rightarrow> real" where
  "pos_Anim d now = real (unat (now - anim_when d)) / real (unat (anim_due d - anim_when d))"

definition easeIn :: "real \<Rightarrow> real" where
  "easeIn t = t * t"

definition easeOut :: "real \<Rightarrow> real" where
  "easeOut t = t * (2 - t)"

definition easeBoth :: "real \<Rightarrow> real" where
  "easeBoth t =
     (if t < 1 / 2 then easeIn (t * 2) * (1 / 2)
      else 1 / 2 + easeOut ((t - 1 / 2) * 2) * (1 / 2))"

definition valueAt_Anim :: "Anim \<Rightarrow> 32 word \<Rightarrow> real" where
  "valueAt_Anim d now =
     (if now \<ge> anim_due d then anim_to d
      else if now \<le> anim_when d then anim_from d
      else
        let t = pos_Anim d now;
            isSoft = (softer_AnimFlag \<in> anim_flags d);
            t' = (if easeBoth_AnimFlag \<subseteq> anim_flags d then
                    (let t1 = easeBoth t in if isSoft then easeBoth t1 else t1)
                  else if easeIn_AnimFlag \<in> anim_flags d then
                    (let t1 = easeIn t in if isSoft then easeIn t1 else t1)
                  else if easeOut_AnimFlag \<in> anim_flags d then
                    (let t1 = easeOut t in if isSoft then easeOut t1 else t1)
                  else t)
        in anim_from d * (1 - t') + anim_to d * t')"

text \<open>
  \<open>setValue_Anim\<close> and \<open>setValueEased_Anim\<close> read two clocks: \<open>SDL_GetTicks()\<close>, passed
  as \<open>ticks\<close>, and the time of the current frame, passed as \<open>frameTime\<close>.
\<close>

definition setValue_Anim :: "Anim \<Rightarrow> real \<Rightarrow> 32 word \<Rightarrow> 32 word \<Rightarrow> 32 word \<Rightarrow> Anim" where
  "setValue_Anim d to spn ticks frameTime =
     (if spn = 0 then
        d\<lparr> anim_from := to, anim_to := to, anim_when := frameTime, anim_due := frameTime \<rparr>
      else if \<bar>to - anim_to d\<bar> > 1 / 100000 then
        d\<lparr> anim_from := valueAt_Anim d ticks, anim_to := to, anim_when := ticks,
           anim_due := ticks + spn \<rparr>
      else d)"

definition setValueEased_Anim :: "Anim \<Rightarrow> real \<Rightarrow> 32 word \<Rightarrow> 32 word \<Rightarrow> 32 word \<Rightarrow> Anim" where
  "setValueEased_Anim d to spn ticks frameTime =
     (if \<bar>to - anim_to d\<bar> \<le> 1 / 100000 then d\<lparr> anim_to := to \<rparr>
      else if isFinished_Anim d frameTime then
        d\<lparr> anim_from := anim_to d, anim_flags := easeBoth_AnimFlag, anim_to := to,
           anim_when := ticks, anim_due := ticks + spn \<rparr>
      else
        d\<lparr> anim_from := valueAt_Anim d ticks, anim_flags := {easeOut_AnimFlag}, anim_to := to,
           anim_when := ticks, anim_due := ticks + spn \<rparr>)"

definition value_Anim :: "Anim \<Rightarrow> 32 word \<Rightarrow> real" where
  "value_Anim d frameTime = valueAt_Anim d frameTime"

definition stop_Anim :: "Anim \<Rightarrow> 32 word \<Rightarrow> 32 word \<Rightarrow> Anim" where
  "stop_Anim d ticks frameTime =
     d\<lparr> anim_from := value_Anim d frameTime, anim_to := value_Anim d frameTime,
        anim_when := ticks, anim_due := ticks \<rparr>"

definition targetValue_Anim :: "Anim \<Rightarrow> real" where
  "targetValue_Anim d = anim_to d"

text \<open>
  The easing curve as the specification words it: the identity without an easing flag,
  \<open>n\<^sup>2\<close> for ease-in, \<open>n (2 - n)\<close> for ease-out, ease-in on the first half and ease-out
  on the second half (each half rescaled to the unit interval) for ease-both, and the curve
  applied twice when the softer flag is set.
\<close>

definition spec_curve :: "iAnimFlag set \<Rightarrow> real \<Rightarrow> real" where
  "spec_curve fl n =
     (if easeIn_AnimFlag \<in> fl \<and> easeOut_AnimFlag \<in> fl then
        (if n < 1 / 2 then (2 * n)\<^sup>2 / 2 else 1 / 2 + (2 * n - 1) * (2 - (2 * n - 1)) / 2)
      else if easeIn_AnimFlag \<in> fl then n\<^sup>2
      else if easeOut_AnimFlag \<in> fl then n * (2 - n)
      else n)"

definition spec_ease :: "iAnimFlag set \<Rightarrow> real \<Rightarrow> real" where
  "spec_ease fl n =
     (if softer_AnimFlag \<in> fl then spec_curve fl (spec_curve fl n) else spec_curve fl n)"

section \<open>Geometry and character ranges\<close>

record iRect =
  pos_x :: int
  pos_y :: int
  size_x :: int
  size_y :: int

definition top_Rect :: "iRect \<Rightarrow> int" where
  "top_Rect r = pos_y r"

definition bottom_Rect :: "iRect \<Rightarrow> int" where
  "bottom_Rect r = pos_y r + size_y r"

definition left_Rect :: "iRect \<Rightarrow> int" where
  "left_Rect r = pos_x r"

definition right_Rect :: "iRect \<Rightarrow> int" where
  "right_Rect r = pos_x r + size_x r"

definition width_Rect :: "iRect \<Rightarrow> int" where
  "width_Rect r = size_x r"

definition height_Rect :: "iRect \<Rightarrow> int" where
  "height_Rect r = size_y r"

text \<open>C integer division rounds towards zero; a \<open>float\<close> assigned to an \<open>int\<close> is truncated.\<close>

definition cdiv :: "int \<Rightarrow> int \<Rightarrow> int" where
  "cdiv a b = sgn a * sgn b * (\<bar>a\<bar> div \<bar>b\<bar>)"

definition toInt :: "real \<Rightarrow> int" where
  "toInt v = (if v \<ge> 0 then \<lfloor>v\<rfloor> else \<lceil>v\<rceil>)"

text \<open>
  A \<open>float\<close> has 24 significant bits. \<open>roundFloat v\<close> is the \<open>float\<close> nearest to \<open>v\<close>, and of two
  that are equally near the one with the even significand: the value an \<open>int\<close>, or the sum of
  two \<open>float\<close> values, has once it is held in a \<open>float\<close>. \<open>floatExponent v\<close> is the \<open>e\<close> with
  \<open>2 ^ e \<le> \<bar>v\<bar> < 2 ^ (e + 1)\<close>. The limits of the exponent are left out; the numbers rounded
  below are integers of 32 bits and sums of two of them.
\<close>

definition roundEven :: "real \<Rightarrow> int" where
  "roundEven v =
     (let f = \<lfloor>v\<rfloor>
      in if v - real_of_int f < 1 / 2 then f
         else if v - real_of_int f > 1 / 2 then f + 1
         else if even f then f else f + 1)"

definition floatExponent :: "real \<Rightarrow> int" where
  "floatExponent v =
     (if \<bar>v\<bar> \<ge> 1 then bitlen \<lfloor>\<bar>v\<bar>\<rfloor> - 1 else - bitlen (\<lceil>1 / \<bar>v\<bar>\<rceil> - 1))"

definition roundFloat :: "real \<Rightarrow> real" where
  "roundFloat v =
     (if v = 0 then 0
      else let e = floatExponent v - 23
           in if e \<ge> 0 then real_of_int (roundEven (v / 2 ^ nat e) * 2 ^ nat e)
              else real_of_int (roundEven (v * 2 ^ nat (- e))) / 2 ^ nat (- e))"

text \<open>
  A \<open>float\<close> assigned to an \<open>int\<close> is truncated. When the truncated value does not fit the 32
  bits of an \<open>int\<close> the C standard leaves the result open; the conversion instruction of
  x86 then gives the least \<open>int\<close>, and so does \<open>toInt32\<close>.
\<close>

definition toInt32 :: "real \<Rightarrow> int" where
  "toInt32 v = (let t = toInt v in if - (2 ^ 31) \<le> t \<and> t < 2 ^ 31 then t else - (2 ^ 31))"

text \<open>The value of \<open>a + b\<close> in a 32-bit \<open>int\<close> that wraps around.\<close>

definition wrap32 :: "int \<Rightarrow> int" where
  "wrap32 v = (v + 2 ^ 31) mod 2 ^ 32 - 2 ^ 31"

definition iMin :: "int \<Rightarrow> int \<Rightarrow> int" where
  "iMin a b = (if a < b then a else b)"

definition iMax :: "int \<Rightarrow> int \<Rightarrow> int" where
  "iMax a b = (if a > b then a else b)"

definition iClamp :: "int \<Rightarrow> int \<Rightarrow> int \<Rightarrow> int" where
  "iClamp i low high = (if i < low then low else if i > high then high else i)"

definition mid_Rect_x :: "iRect \<Rightarrow> int" where
  "mid_Rect_x r = pos_x r + cdiv (size_x r) 2"

definition mid_Rect_y :: "iRect \<Rightarrow> int" where
  "mid_Rect_y r = pos_y r + cdiv (size_y r) 2"

definition expanded_Rect :: "iRect \<Rightarrow> int \<Rightarrow> iRect" where
  "expanded_Rect r v =
     \<lparr> pos_x = pos_x r - v, pos_y = pos_y r - v,
       size_x = size_x r + 2 * v, size_y = size_y r + 2 * v \<rparr>"

definition contains_Rect :: "iRect \<Rightarrow> int \<times> int \<Rightarrow> bool" where
  "contains_Rect r p \<longleftrightarrow>
     fst p \<ge> left_Rect r \<and> snd p \<ge> top_Rect r \<and> fst p < right_Rect r \<and> snd p < bottom_Rect r"

text \<open>
  An \<open>iRangecc\<close> is a pair of pointers into a zero-terminated string. It is kept as the
  characters inside the range and the characters that follow its end up to the terminator,
  so that \<open>*r.start\<close> and \<open>*r.end\<close> can be read.
\<close>

record iRangecc =
  inside :: string
  following :: string

definition NUL :: char where
  "NUL = CHR 0x00"

definition charAtStart :: "iRangecc \<Rightarrow> char" where
  "charAtStart r = (case inside r @ following r of [] \<Rightarrow> NUL | c # cs \<Rightarrow> c)"

definition charAtEnd :: "iRangecc \<Rightarrow> char" where
  "charAtEnd r = (case following r of [] \<Rightarrow> NUL | c # cs \<Rightarrow> c)"

definition range_CStr :: "string \<Rightarrow> iRangecc" where
  "range_CStr s = \<lparr> inside = s, following = [] \<rparr>"

definition isspace :: "char \<Rightarrow> bool" where
  "isspace c \<longleftrightarrow> of_char c = (32::nat) \<or> (9 \<le> (of_char c :: nat) \<and> (of_char c :: nat) \<le> 13)"

definition trim_Rangecc :: "iRangecc \<Rightarrow> iRangecc" where
  "trim_Rangecc r =
     (let t1 = dropWhile isspace (inside r);
          kept = rev (dropWhile isspace (rev t1))
      in \<lparr> inside = kept, following = drop (length kept) t1 @ following r \<rparr>)"

text \<open>
  \<open>nextSplit_Rangecc\<close> with the separator \<open>;\<close>: a separator at the very start is skipped,
  the segments run up to the next separator or the end, and the iteration stops when the
  next segment would start at the end of the string.
\<close>

fun nextSplits :: "string \<Rightarrow> string \<Rightarrow> iRangecc list" where
  "nextSplits cur [] = [\<lparr> inside = rev cur, following = [] \<rparr>]"
| "nextSplits cur (c # cs) =
     (if c = CHR '';'' then
        \<lparr> inside = rev cur, following = c # cs \<rparr> # (if cs = [] then [] else nextSplits [] cs)
      else nextSplits (c # cur) cs)"

definition splitRanges :: "string \<Rightarrow> iRangecc list" where
  "splitRanges s =
     (if s = [] then []
      else let s' = (if hd s = CHR '';'' then tl s else s)
           in if s' = [] then [] else nextSplits [] s')"

definition toLower :: "char \<Rightarrow> char" where
  "toLower c =
     (if 65 \<le> (of_char c :: nat) \<and> (of_char c :: nat) \<le> 90 then char_of (of_char c + (32::nat))
      else c)"

definition lower_String :: "string \<Rightarrow> string" where
  "lower_String s = map toLower s"

text \<open>The \<open>Case\<close> comparisons of the library ignore letter case.\<close>

definition equalCase :: "string \<Rightarrow> string \<Rightarrow> bool" where
  "equalCase a b \<longleftrightarrow> lower_String a = lower_String b"

definition startsWithCase :: "string \<Rightarrow> string \<Rightarrow> bool" where
  "startsWithCase s p \<longleftrightarrow> startsWith (lower_String s) (lower_String p)"

section \<open>Status codes, responses and requests\<close>

text \<open>
  Modelled from the spec: \<open>enum iGmStatusCode\<close> and \<open>category_GmStatusCode\<close> are declared
  in a header that is not among the sources. The client-side codes the widget names are
  constructors, a code sent by the server is \<open>wire n\<close>, and the category of a server code
  is its first digit: input, success, redirect, temporary failure, permanent failure.
\<close>

datatype iGmStatusCode =
    none_GmStatusCode
  | invalidRedirect_GmStatusCode
  | schemeChangeRedirect_GmStatusCode
  | tooManyRedirects_GmStatusCode
  | unsupportedMimeType_GmStatusCode
  | tlsFailure_GmStatusCode
  | failedToOpenFile_GmStatusCode
  | unknownStatusCode_GmStatusCode
  | wire nat

datatype iGmStatusCategory =
    categoryNone_GmStatusCode
  | categoryInput_GmStatusCode
  | categorySuccess_GmStatusCode
  | categoryRedirect_GmStatusCode
  | categoryTemporaryFailure_GmStatusCode
  | categoryPermanentFailure_GmStatusCode
  | categoryClientCertificate_GmStatusCode

definition sensitiveInput_GmStatusCode :: iGmStatusCode where
  "sensitiveInput_GmStatusCode = wire 11"

definition success_GmStatusCode :: iGmStatusCode where
  "success_GmStatusCode = wire 20"

definition temporaryFailure_GmStatusCode :: iGmStatusCode where
  "temporaryFailure_GmStatusCode = wire 40"

definition slowDown_GmStatusCode :: iGmStatusCode where
  "slowDown_GmStatusCode = wire 44"

definition permanentFailure_GmStatusCode :: iGmStatusCode where
  "permanentFailure_GmStatusCode = wire 50"

definition certificateNotValid_GmStatusCode :: iGmStatusCode where
  "certificateNotValid_GmStatusCode = wire 62"

fun category_GmStatusCode :: "iGmStatusCode \<Rightarrow> iGmStatusCategory" where
  "category_GmStatusCode (wire n) =
     (if n div 10 = 1 then categoryInput_GmStatusCode
      else if n div 10 = 2 then categorySuccess_GmStatusCode
      else if n div 10 = 3 then categoryRedirect_GmStatusCode
      else if n div 10 = 4 then categoryTemporaryFailure_GmStatusCode
      else if n div 10 = 5 then categoryPermanentFailure_GmStatusCode
      else if n div 10 = 6 then categoryClientCertificate_GmStatusCode
      else categoryNone_GmStatusCode)"
| "category_GmStatusCode c = categoryNone_GmStatusCode"

definition isSuccess_GmStatusCode :: "iGmStatusCode \<Rightarrow> bool" where
  "isSuccess_GmStatusCode c \<longleftrightarrow> category_GmStatusCode c = categorySuccess_GmStatusCode"

record GmError =
  icon :: string
  title :: string
  info :: string

text \<open>\<open>iTime\<close> is a \<open>timespec\<close>; a zeroed time is not valid.\<close>

record iTime =
  tv_sec :: int
  tv_nsec :: int

definition zero_Time :: iTime where
  "zero_Time = \<lparr> tv_sec = 0, tv_nsec = 0 \<rparr>"

definition isValid_Time :: "iTime \<Rightarrow> bool" where
  "isValid_Time t \<longleftrightarrow> tv_sec t > 0"

definition seconds_Time :: "iTime \<Rightarrow> real" where
  "seconds_Time t = real_of_int (tv_sec t) + real_of_int (tv_nsec t) / 1000000000"

definition elapsedSeconds_Time :: "iTime \<Rightarrow> iTime \<Rightarrow> real" where
  "elapsedSeconds_Time now t = seconds_Time now - seconds_Time t"

datatype iGmCertFlag =
    available_GmCertFlag
  | domainVerified_GmCertFlag
  | timeVerified_GmCertFlag
  | trusted_GmCertFlag

record GmResponse =
  statusCode :: iGmStatusCode
  meta :: string
  body :: string
  resp_when :: iTime
  resp_certFlags :: "iGmCertFlag set"

record GmRequest =
  resp :: GmResponse
  isFinished_GmRequest :: bool

definition status_GmRequest :: "GmRequest \<Rightarrow> iGmStatusCode" where
  "status_GmRequest r = statusCode (resp r)"

section \<open>The document and its runs\<close>

datatype iGmDocumentFormat =
    undefined_GmDocumentFormat
  | gemini_GmDocumentFormat
  | plainText_GmDocumentFormat

datatype iGmDocumentBanner =
    none_GmDocumentBanner
  | siteDomain_GmDocumentBanner
  | certificateWarning_GmDocumentBanner

datatype iGmRunFlag = decoration_GmRunFlag | wide_GmRunFlag

datatype iGmRunMediaType =
    none_GmRunMediaType
  | image_GmRunMediaType
  | audio_GmRunMediaType
  | download_GmRunMediaType

text \<open>
  A run of the laid-out document. \<open>textStart\<close> is the offset of \<open>text.start\<close> in the
  source. Pointers to runs are indices into the layout array of the document.
\<close>

record GmRun =
  bounds :: iRect
  visBounds :: iRect
  runFlags :: "iGmRunFlag set"
  preId :: nat
  linkId :: nat
  mediaId :: nat
  mediaType :: iGmRunMediaType
  textStart :: nat

text \<open>One call of \<open>setData_Media\<close>: link, MIME type, bytes and the partial-data flag.\<close>

record MediaData =
  md_linkId :: nat
  md_mime :: string
  md_data :: string
  md_partial :: bool

text \<open>
  The document object belongs to another module. What the widget reads and writes is kept:
  format, banner type, URL, source, the layout array with the document height and the site
  banner run, and the media store as the sequence of \<open>setData_Media\<close> calls it received.
\<close>

record GmDocument =
  format :: iGmDocumentFormat
  banner :: iGmDocumentBanner
  docUrl :: string
  source :: string
  docWidth :: int
  layout :: "GmRun list"
  docHeight :: int
  siteBanner :: "nat option"
  mediaStore :: "MediaData list"

definition hasSiteBanner_GmDocument :: "GmDocument \<Rightarrow> bool" where
  "hasSiteBanner_GmDocument doc \<longleftrightarrow> siteBanner doc \<noteq> None"

definition setData_Media :: "GmDocument \<Rightarrow> nat \<Rightarrow> string \<Rightarrow> string \<Rightarrow> bool \<Rightarrow> GmDocument" where
  "setData_Media doc lnk mime bytes partial =
     doc\<lparr> mediaStore := mediaStore doc @
            [\<lparr> md_linkId = lnk, md_mime = mime, md_data = bytes, md_partial = partial \<rparr>] \<rparr>"

text \<open>
  Functions of other modules whose code is not part of the widget: URL helpers, the error
  table, character set decoding and the layout engine. Every function of the widget that
  calls one of them takes this record as its first argument.
\<close>

record Ext =
  absoluteUrl_String :: "string \<Rightarrow> string \<Rightarrow> string"
  urlScheme_String :: "string \<Rightarrow> string"
  urlPath :: "string \<Rightarrow> string"
  baseName_Path :: "string \<Rightarrow> string"
  get_GmError :: "iGmStatusCode \<Rightarrow> GmError"
  isDefined_GmError :: "iGmStatusCode \<Rightarrow> bool"
  decode_Block :: "string \<Rightarrow> string \<Rightarrow> string"
  doLayout :: "GmDocument \<Rightarrow> GmRun list \<times> int \<times> nat option"
  findPreformattedRange_GmDocument :: "GmDocument \<Rightarrow> nat \<Rightarrow> nat \<times> nat"
  findRunAtLoc_GmDocument :: "GmDocument \<Rightarrow> nat \<Rightarrow> nat option"
  linkUrl_GmDocument :: "GmDocument \<Rightarrow> nat \<Rightarrow> string"
  findLinkDownload_Media :: "GmDocument \<Rightarrow> nat \<Rightarrow> nat"
  urlFragmentStripped_String :: "string \<Rightarrow> string"
  saveKeyLabel :: string

text \<open>
  \<open>setSource_GmDocument\<close> and \<open>setWidth_GmDocument\<close> store their arguments and lay the
  document out again; \<open>reset_GmDocument\<close> empties it.
\<close>

definition redoLayout_GmDocument :: "Ext \<Rightarrow> GmDocument \<Rightarrow> GmDocument" where
  "redoLayout_GmDocument x doc =
     (case doLayout x doc of (runs, h, b) \<Rightarrow>
        doc\<lparr> layout := runs, docHeight := h, siteBanner := b \<rparr>)"

definition setSource_GmDocument :: "Ext \<Rightarrow> GmDocument \<Rightarrow> string \<Rightarrow> int \<Rightarrow> GmDocument" where
  "setSource_GmDocument x doc s width =
     redoLayout_GmDocument x (doc\<lparr> source := s, docWidth := width \<rparr>)"

definition setWidth_GmDocument :: "Ext \<Rightarrow> GmDocument \<Rightarrow> int \<Rightarrow> GmDocument" where
  "setWidth_GmDocument x doc width = redoLayout_GmDocument x (doc\<lparr> docWidth := width \<rparr>)"

definition reset_GmDocument :: "GmDocument \<Rightarrow> GmDocument" where
  "reset_GmDocument doc =
     doc\<lparr> source := [], layout := [], docHeight := 0, siteBanner := None, mediaStore := [] \<rparr>"

definition new_GmDocument :: GmDocument where
  "new_GmDocument =
     \<lparr> format = gemini_GmDocumentFormat, banner = siteDomain_GmDocumentBanner, docUrl = [],
       source = [], docWidth = 0, layout = [], docHeight = 0, siteBanner = None,
       mediaStore = [] \<rparr>"

text \<open>
  Modelled from the spec: \<open>render_GmDocument\<close> is part of the document module; it visits,
  in document order, the runs whose vertical extent meets the given range. The result is
  the list of their indices.
\<close>

definition isOverlapping_Rangei :: "int \<times> int \<Rightarrow> int \<times> int \<Rightarrow> bool" where
  "isOverlapping_Rangei a b \<longleftrightarrow> fst a < snd b \<and> snd a > fst b"

definition ySpan_Rect :: "iRect \<Rightarrow> int \<times> int" where
  "ySpan_Rect r = (top_Rect r, bottom_Rect r)"

definition render_GmDocument :: "GmDocument \<Rightarrow> int \<times> int \<Rightarrow> nat list" where
  "render_GmDocument doc visRange =
     filter (\<lambda>i. isOverlapping_Rangei (ySpan_Rect (visBounds (layout doc ! i))) visRange)
       [0 ..< length (layout doc)]"

section \<open>The document widget\<close>

datatype iRequestState =
    blank_RequestState
  | fetching_RequestState
  | receivedPartialResponse_RequestState
  | ready_RequestState

datatype iDocumentWidgetFlag =
    selecting_DocumentWidgetFlag
  | noHoverWhileScrolling_DocumentWidgetFlag
  | showLinkNumbers_DocumentWidgetFlag
  | setHoverViaKeys_DocumentWidgetFlag
  | newTabViaHomeKeys_DocumentWidgetFlag
  | centerVertically_DocumentWidgetFlag

record MediaRequest =
  mr_linkId :: nat
  mr_url :: string
  mr_enableFilters :: bool
  mr_req :: GmRequest

text \<open>The commands the widget posts to the application and the dialogs it opens.\<close>

datatype Command =
    document_reload
  | document_request_started string
  | open_redirect int string
  | tabs_switch
  | valueInput_dialog string bool
  | message_dialog string string

text \<open>
  What the widget reads from its surroundings: the UI scale, its own bounds, the document
  width that \<open>documentWidth_DocumentWidget_\<close> computes from the bounds and the preferences,
  the line height of the paragraph font, two preferences, whether the widget is the current
  document, and the pointer.
\<close>

record UiEnv =
  gap_UI :: int
  gap_Text :: int
  widgetBounds :: iRect
  documentWidth :: int
  lineHeight :: int
  smoothScrolling :: bool
  centerShortDocs :: bool
  isCurrentDocument :: bool
  isHover :: bool
  mouseCoord :: "int \<times> int"

text \<open>\<open>SDL_GetTicks()\<close> and the time of the current frame.\<close>

record Clock =
  ticks :: "32 word"
  frameTime :: "32 word"

text \<open>
  \<open>struct Impl_DocumentWidget\<close>. \<open>mod_state\<close> is the field \<open>mod\<close>, \<open>posted\<close> collects the
  commands posted so far. Fields that only hold display resources (title, textures, text
  buffers, menus, the scroll bar, the pixel cache) are left out, and so are the functions
  that only update them.
\<close>

record DocumentWidget =
  state :: iRequestState
  mod_state :: PersistentDocumentState
  flags :: "iDocumentWidgetFlag set"
  request :: "GmRequest option"
  media :: "MediaRequest list"
  sourceStatus :: iGmStatusCode
  sourceMime :: string
  sourceTime :: iTime
  doc :: GmDocument
  certFlags :: "iGmCertFlag set"
  redirectCount :: int
  selectMark :: "(nat \<times> nat) option"
  foundMark :: "(nat \<times> nat) option"
  pageMargin :: int
  visibleLinks :: "nat list"
  visibleWideRuns :: "nat list"
  wideRunOffsets :: "int list"
  animWideRunOffset :: Anim
  animWideRunId :: nat
  animWideRunRange :: "nat \<times> nat"
  visibleMedia :: "nat list"
  hoverLink :: "nat option"
  contextLink :: "nat option"
  firstVisibleRun :: "nat option"
  lastVisibleRun :: "nat option"
  scrollY :: Anim
  invalidRuns :: "nat list"
  posted :: "Command list"

definition init_DocumentWidget :: "Clock \<Rightarrow> DocumentWidget" where
  "init_DocumentWidget clk =
     \<lparr> state = blank_RequestState, mod_state = init_PersistentDocumentState, flags = {},
       request = None, media = [], sourceStatus = none_GmStatusCode, sourceMime = [],
       sourceTime = zero_Time, doc = new_GmDocument, certFlags = {}, redirectCount = 0,
       selectMark = None, foundMark = None, pageMargin = 5, visibleLinks = [],
       visibleWideRuns = [], wideRunOffsets = [], animWideRunOffset = init_Anim 0 (ticks clk),
       animWideRunId = 0, animWideRunRange = (0, 0), visibleMedia = [], hoverLink = None,
       contextLink = None, firstVisibleRun = None, lastVisibleRun = None,
       scrollY = init_Anim 0 (ticks clk), invalidRuns = [], posted = [] \<rparr>"

definition runAt :: "DocumentWidget \<Rightarrow> nat \<Rightarrow> GmRun" where
  "runAt d p = layout (doc d) ! p"

definition postCommand :: "DocumentWidget \<Rightarrow> Command \<Rightarrow> DocumentWidget" where
  "postCommand d c = d\<lparr> posted := posted d @ [c] \<rparr>"

definition resetWideRuns_DocumentWidget :: "Clock \<Rightarrow> DocumentWidget \<Rightarrow> DocumentWidget" where
  "resetWideRuns_DocumentWidget clk d =
     d\<lparr> wideRunOffsets := [], animWideRunId := 0,
        animWideRunOffset := init_Anim 0 (ticks clk), animWideRunRange := (0, 0) \<rparr>"

definition documentBounds_DocumentWidget :: "UiEnv \<Rightarrow> DocumentWidget \<Rightarrow> iRect" where
  "documentBounds_DocumentWidget env d =
     (let bnds = widgetBounds env;
          margin = gap_UI env * pageMargin d;
          sx = documentWidth env;
          rect0 = \<lparr> pos_x = mid_Rect_x bnds - cdiv sx 2, pos_y = top_Rect bnds,
                    size_x = sx, size_y = height_Rect bnds - margin \<rparr>;
          rect1 = (if siteBanner (doc d) = None
                   then rect0\<lparr> pos_y := pos_y rect0 + margin, size_y := size_y rect0 - margin \<rparr>
                   else rect0)
      in if centerVertically_DocumentWidgetFlag \<in> flags d \<and> docHeight (doc d) < size_y rect1
         then
           let bannerHeight = (case siteBanner (doc d) of None \<Rightarrow> 0
                               | Some b \<Rightarrow> height_Rect (visBounds (runAt d b)));
               offset = iMax 0 (cdiv (size_y rect1 + margin - docHeight (doc d) - bannerHeight
                                      - lineHeight env) 2)
           in rect1\<lparr> pos_y := pos_y rect1 + offset, size_y := docHeight (doc d) \<rparr>
         else rect1)"

definition documentPos_DocumentWidget ::
  "UiEnv \<Rightarrow> Clock \<Rightarrow> DocumentWidget \<Rightarrow> int \<times> int \<Rightarrow> int \<times> int" where
  "documentPos_DocumentWidget env clk d pos =
     (let b = documentBounds_DocumentWidget env d
      in (fst pos - pos_x b, snd pos - pos_y b + toInt (value_Anim (scrollY d) (frameTime clk))))"

definition visibleRange_DocumentWidget :: "UiEnv \<Rightarrow> Clock \<Rightarrow> DocumentWidget \<Rightarrow> int \<times> int" where
  "visibleRange_DocumentWidget env clk d =
     (let margin = (if \<not> hasSiteBanner_GmDocument (doc d) then gap_UI env * pageMargin d else 0);
          v = value_Anim (scrollY d) (frameTime clk)
      in (toInt (v - real_of_int margin),
          toInt (v + real_of_int (height_Rect (widgetBounds env)) - real_of_int margin)))"

definition addVisible_DocumentWidget :: "DocumentWidget \<Rightarrow> nat \<Rightarrow> DocumentWidget" where
  "addVisible_DocumentWidget d p =
     (let run = runAt d p;
          d1 = (if decoration_GmRunFlag \<notin> runFlags run \<and> mediaId run = 0
                then d\<lparr> firstVisibleRun := (if firstVisibleRun d = None then Some p
                                              else firstVisibleRun d),
                        lastVisibleRun := Some p \<rparr>
                else d);
          d2 = (if preId run \<noteq> 0 \<and> wide_GmRunFlag \<in> runFlags run
                then d1\<lparr> visibleWideRuns := visibleWideRuns d1 @ [p] \<rparr> else d1);
          d3 = (if mediaType run = audio_GmRunMediaType \<or> mediaType run = download_GmRunMediaType
                then d2\<lparr> visibleMedia := visibleMedia d2 @ [p] \<rparr> else d2)
      in if linkId run \<noteq> 0 then d3\<lparr> visibleLinks := visibleLinks d3 @ [p] \<rparr> else d3)"

definition scrollMax_DocumentWidget :: "UiEnv \<Rightarrow> DocumentWidget \<Rightarrow> int" where
  "scrollMax_DocumentWidget env d =
     docHeight (doc d) - height_Rect (widgetBounds env) +
     (if hasSiteBanner_GmDocument (doc d) then 1 else 2) * pageMargin d * gap_UI env"

text \<open>
  The invalidation set is a \<open>PtrSet\<close>, a sorted array of distinct pointers:
  \<open>insert_PtrSet\<close> leaves the array as it is when the pointer is already there.
\<close>

definition insert_PtrSet :: "nat list \<Rightarrow> nat \<Rightarrow> nat list" where
  "insert_PtrSet s p = (if p \<in> set s then s else insort p s)"

definition invalidateLink_DocumentWidget :: "DocumentWidget \<Rightarrow> nat \<Rightarrow> DocumentWidget" where
  "invalidateLink_DocumentWidget d lnk =
     d\<lparr> invalidRuns :=
          foldl (\<lambda>s p. if linkId (runAt d p) = lnk then insert_PtrSet s p else s)
            (invalidRuns d) (visibleLinks d) \<rparr>"

definition invalidateVisibleLinks_DocumentWidget :: "DocumentWidget \<Rightarrow> DocumentWidget" where
  "invalidateVisibleLinks_DocumentWidget d =
     d\<lparr> invalidRuns :=
          foldl (\<lambda>s p. if linkId (runAt d p) \<noteq> 0 then insert_PtrSet s p else s)
            (invalidRuns d) (visibleLinks d) \<rparr>"

definition updateHover_DocumentWidget ::
  "UiEnv \<Rightarrow> Clock \<Rightarrow> DocumentWidget \<Rightarrow> int \<times> int \<Rightarrow> DocumentWidget" where
  "updateHover_DocumentWidget env clk d mouse =
     (let docBounds = documentBounds_DocumentWidget env d;
          oldHoverLink = hoverLink d;
          hoverPos = (fst mouse - pos_x docBounds,
                      snd mouse - pos_y docBounds + toInt (value_Anim (scrollY d) (frameTime clk)));
          new = (if isHover env \<and> noHoverWhileScrolling_DocumentWidgetFlag \<notin> flags d \<and>
                    (state d = ready_RequestState \<or>
                     state d = receivedPartialResponse_RequestState)
                 then find (\<lambda>p. contains_Rect
                                   (expanded_Rect (bounds (runAt d p)) (cdiv (gap_Text env) 2))
                                   hoverPos) (visibleLinks d)
                 else None);
          d1 = d\<lparr> hoverLink := new \<rparr>
      in if new \<noteq> oldHoverLink then
           let d2 = (case oldHoverLink of None \<Rightarrow> d1
                     | Some p \<Rightarrow> invalidateLink_DocumentWidget d1 (linkId (runAt d1 p)))
           in (case new of None \<Rightarrow> d2
               | Some p \<Rightarrow> invalidateLink_DocumentWidget d2 (linkId (runAt d2 p)))
         else d1)"

definition updateVisible_DocumentWidget :: "UiEnv \<Rightarrow> Clock \<Rightarrow> DocumentWidget \<Rightarrow> DocumentWidget" where
  "updateVisible_DocumentWidget env clk d =
     (let center = (centerShortDocs env \<or> startsWithCase (url (mod_state d)) ''about:'' \<or>
                    \<not> isSuccess_GmStatusCode (sourceStatus d));
          d1 = d\<lparr> flags := (if center then insert centerVertically_DocumentWidgetFlag (flags d)
                             else flags d - {centerVertically_DocumentWidgetFlag}) \<rparr>;
          visRange = visibleRange_DocumentWidget env clk d1;
          d2 = d1\<lparr> visibleLinks := [], visibleWideRuns := [], visibleMedia := [],
                   firstVisibleRun := None \<rparr>;
          d3 = foldl addVisible_DocumentWidget d2 (render_GmDocument (doc d2) visRange)
      in updateHover_DocumentWidget env clk d3 (mouseCoord env))"

definition invalidate_DocumentWidget :: "DocumentWidget \<Rightarrow> DocumentWidget" where
  "invalidate_DocumentWidget d = d\<lparr> invalidRuns := [] \<rparr>"

definition documentRunsInvalidated_DocumentWidget :: "DocumentWidget \<Rightarrow> DocumentWidget" where
  "documentRunsInvalidated_DocumentWidget d =
     d\<lparr> foundMark := None, selectMark := None, hoverLink := None, contextLink := None,
        firstVisibleRun := None, lastVisibleRun := None \<rparr>"

definition setSource_DocumentWidget ::
  "Ext \<Rightarrow> UiEnv \<Rightarrow> Clock \<Rightarrow> DocumentWidget \<Rightarrow> string \<Rightarrow> DocumentWidget" where
  "setSource_DocumentWidget x env clk d src =
     (let doc1 = (doc d)\<lparr> docUrl := url (mod_state d) \<rparr>;
          doc2 = setSource_GmDocument x doc1 src (documentWidth env);
          d1 = documentRunsInvalidated_DocumentWidget (d\<lparr> doc := doc2 \<rparr>);
          d2 = updateVisible_DocumentWidget env clk d1
      in invalidate_DocumentWidget d2)"

definition bannerType_DocumentWidget :: "DocumentWidget \<Rightarrow> iGmDocumentBanner" where
  "bannerType_DocumentWidget d =
     (if available_GmCertFlag \<in> certFlags d \<and>
         \<not> {domainVerified_GmCertFlag, timeVerified_GmCertFlag, trusted_GmCertFlag} \<subseteq> certFlags d
      then certificateWarning_GmDocumentBanner
      else siteDomain_GmDocumentBanner)"

text \<open>The text of an error page; the icon defaults to U+2327 in UTF-8.\<close>

definition errorPageSource :: "Ext \<Rightarrow> iGmStatusCode \<Rightarrow> string option \<Rightarrow> string" where
  "errorPageSource x code mta =
     (let msg = get_GmError x code;
          head = ''# '' @ (if icon msg \<noteq> [] then icon msg
                           else [CHR 0xE2, CHR 0x8C, CHR 0xA7])
                 @ '' '' @ title msg @ [CHR 0x0A] @ info msg;
          nl = [CHR 0x0A]
      in case mta of
           None \<Rightarrow> head
         | Some m \<Rightarrow>
             if code = schemeChangeRedirect_GmStatusCode \<or> code = tooManyRedirects_GmStatusCode
             then head @ nl @ ''=> '' @ m @ nl
             else if code = tlsFailure_GmStatusCode then head @ nl @ nl @ ''>'' @ m @ nl
             else if code = failedToOpenFile_GmStatusCode \<or>
                     code = certificateNotValid_GmStatusCode
             then head @ nl @ nl @ m
             else if code = unsupportedMimeType_GmStatusCode
             then head @ nl @ ''```'' @ nl @ m @ nl @ ''```'' @ nl @
                  ''You can save it as a file to your Downloads folder, though. '' @
                  ''Press '' @ saveKeyLabel x @
                  '' or select '' @ [CHR 0x22] @ ''Save to Downloads'' @
                  [CHR 0x22] @ '' from the menu.''
             else if code = slowDown_GmStatusCode
             then head @ nl @ nl @ ''Wait '' @ m @ '' seconds before your next request.''
             else head)"

definition showErrorPage_DocumentWidget ::
  "Ext \<Rightarrow> UiEnv \<Rightarrow> Clock \<Rightarrow> DocumentWidget \<Rightarrow> iGmStatusCode \<Rightarrow> string option \<Rightarrow> DocumentWidget" where
  "showErrorPage_DocumentWidget x env clk d code mta =
     (let src = errorPageSource x code mta;
          useBanner = \<not> (mta \<noteq> None \<and> code = tlsFailure_GmStatusCode);
          doc1 = (doc d)\<lparr> banner := (if useBanner then bannerType_DocumentWidget d
                                       else none_GmDocumentBanner),
                         format := gemini_GmDocumentFormat \<rparr>;
          d1 = setSource_DocumentWidget x env clk (d\<lparr> doc := doc1 \<rparr>) src;
          d2 = d1\<lparr> scrollY := init_Anim 0 (ticks clk) \<rparr>;
          d3 = resetWideRuns_DocumentWidget clk d2
      in d3\<lparr> state := ready_RequestState \<rparr>)"

section \<open>Response handling\<close>

text \<open>The local variables of the MIME type loop in \<open>updateDocument_DocumentWidget_\<close>.\<close>

record MimeScan =
  docFormat :: iGmDocumentFormat
  str :: string
  setSource :: bool
  charset :: iRangecc

definition dquote :: char where
  "dquote = CHR 0x22"

text \<open>
  The quote test of the loop reads \<open>*charset.start\<close> and \<open>*charset.end\<close>; when both are a
  double quote the range loses its first and its last character.
\<close>

definition charsetRange :: "iRangecc \<Rightarrow> iRangecc" where
  "charsetRange param =
     (let cs = trim_Rangecc \<lparr> inside = drop 8 (inside param), following = following param \<rparr>
      in if charAtStart cs = dquote \<and> charAtEnd cs = dquote
         then \<lparr> inside = butlast (tl (inside cs)),
                following = (if inside cs = [] then following cs
                             else last (inside cs) # following cs) \<rparr>
         else cs)"

definition mimeSegment ::
  "Ext \<Rightarrow> bool \<Rightarrow> bool \<Rightarrow> string \<Rightarrow> GmResponse \<Rightarrow> DocumentWidget \<times> MimeScan \<Rightarrow> iRangecc
   \<Rightarrow> DocumentWidget \<times> MimeScan" where
  "mimeSegment x isInitialUpdate isRequestFinished mimeStr response acc seg =
     (case acc of (d, l) \<Rightarrow>
        let param = trim_Rangecc seg;
            p = inside param
        in if p = ''text/gemini'' then
             (d\<lparr> sourceMime := p \<rparr>, l\<lparr> docFormat := gemini_GmDocumentFormat \<rparr>)
           else if startsWith p ''text/'' \<or> p = ''application/json'' then
             (d\<lparr> sourceMime := p \<rparr>, l\<lparr> docFormat := plainText_GmDocumentFormat \<rparr>)
           else if startsWith p ''image/'' \<or> startsWith p ''audio/'' then
             (let isAudio = startsWith p ''audio/'';
                  d1 = d\<lparr> sourceMime := p \<rparr>;
                  l1 = l\<lparr> docFormat := gemini_GmDocumentFormat \<rparr>
              in if (isAudio \<and> isInitialUpdate) \<or> (\<not> isAudio \<and> isRequestFinished) then
                   (let path = urlPath x (url (mod_state d1));
                        linkTitle = (if path \<noteq> [] then baseName_Path x path
                                     else if startsWith mimeStr ''image/'' then ''Image''
                                     else ''Audio'')
                    in (d1\<lparr> doc := redoLayout_GmDocument x
                                      (setData_Media (doc d1) 1 mimeStr (body response)
                                         (\<not> isRequestFinished)) \<rparr>,
                        l1\<lparr> str := ''=> '' @ url (mod_state d1) @ '' '' @ linkTitle @
                                   [CHR 0x0A] \<rparr>))
                 else if isAudio \<and> \<not> isInitialUpdate then
                   (d1\<lparr> doc := setData_Media (doc d1) 1 mimeStr (body response)
                                  (\<not> isRequestFinished) \<rparr>,
                    l1\<lparr> setSource := False \<rparr>)
                 else (d1, l1\<lparr> str := [] \<rparr>))
           else if startsWith p ''charset='' then
             (d, l\<lparr> charset := charsetRange param \<rparr>)
           else (d, l))"

definition updateDocument_DocumentWidget ::
  "Ext \<Rightarrow> UiEnv \<Rightarrow> Clock \<Rightarrow> DocumentWidget \<Rightarrow> GmResponse \<Rightarrow> bool \<Rightarrow> DocumentWidget" where
  "updateDocument_DocumentWidget x env clk d response isInitialUpdate =
     (if state d = ready_RequestState then d
      else
        let isRequestFinished = (case request d of None \<Rightarrow> True
                                 | Some rq \<Rightarrow> isFinished_GmRequest rq)
        in if category_GmStatusCode (statusCode response) \<noteq> categoryInput_GmStatusCode then
             (let d1 = invalidate_DocumentWidget d;
                  d2 = d1\<lparr> sourceMime := [], sourceTime := resp_when response \<rparr>
              in if isSuccess_GmStatusCode (statusCode response) then
                   (let mimeStr = lower_String (meta response);
                        d3 = d2\<lparr> sourceMime := mimeStr \<rparr>;
                        l0 = \<lparr> docFormat = undefined_GmDocumentFormat, str = body response,
                               setSource = True, charset = range_CStr ''utf-8'' \<rparr>;
                        res = foldl (mimeSegment x isInitialUpdate isRequestFinished mimeStr response)
                                (d3, l0) (splitRanges mimeStr);
                        d4 = fst res;
                        l = snd res
                    in if docFormat l = undefined_GmDocumentFormat then
                         showErrorPage_DocumentWidget x env clk d4
                           unsupportedMimeType_GmStatusCode (Some (meta response))
                       else
                         (let d5 = d4\<lparr> doc := (doc d4)\<lparr> format := docFormat l \<rparr> \<rparr>;
                              str' = (if \<not> equalCase (inside (charset l)) ''utf-8''
                                      then decode_Block x (str l) (inside (charset l))
                                      else str l)
                          in if setSource l then setSource_DocumentWidget x env clk d5 str'
                             else d5))
                 else setSource_DocumentWidget x env clk d2 (body response))
           else d)"

definition new_GmRequest :: GmRequest where
  "new_GmRequest =
     \<lparr> resp = \<lparr> statusCode = none_GmStatusCode, meta = [], body = [], resp_when = zero_Time,
                resp_certFlags = {} \<rparr>,
       isFinished_GmRequest = False \<rparr>"

definition fetch_DocumentWidget :: "DocumentWidget \<Rightarrow> DocumentWidget" where
  "fetch_DocumentWidget d =
     (let d1 = postCommand (d\<lparr> request := None \<rparr>) (document_request_started (url (mod_state d)))
      in d1\<lparr> media := [], certFlags := {},
             flags := flags d1 - {showLinkNumbers_DocumentWidgetFlag},
             state := fetching_RequestState, request := Some new_GmRequest \<rparr>)"

definition updateTrust_DocumentWidget :: "DocumentWidget \<Rightarrow> GmResponse \<Rightarrow> DocumentWidget" where
  "updateTrust_DocumentWidget d response =
     (let d1 = d\<lparr> certFlags := resp_certFlags response \<rparr>
      in if available_GmCertFlag \<notin> certFlags d1 then d1
         else d1\<lparr> doc := (doc d1)\<lparr> banner := bannerType_DocumentWidget d1 \<rparr> \<rparr>)"

definition checkResponse_DocumentWidget ::
  "Ext \<Rightarrow> UiEnv \<Rightarrow> Clock \<Rightarrow> DocumentWidget \<Rightarrow> DocumentWidget" where
  "checkResponse_DocumentWidget x env clk d =
     (case request d of
        None \<Rightarrow> d
      | Some rq \<Rightarrow>
          let code = status_GmRequest rq;
              rsp = resp rq
          in if code = none_GmStatusCode then d
             else if state d = fetching_RequestState then
               (let d1 = updateTrust_DocumentWidget
                           (d\<lparr> state := receivedPartialResponse_RequestState \<rparr>) rsp;
                    d2 = d1\<lparr> sourceStatus := code \<rparr>
                in case category_GmStatusCode code of
                     categoryInput_GmStatusCode \<Rightarrow>
                       (let prompt = (if meta rsp = []
                                      then ''Please enter input for '' @
                                           urlPath x (url (mod_state d2)) @ '':''
                                      else meta rsp);
                            d3 = postCommand d2
                                   (valueInput_dialog prompt (code = sensitiveInput_GmStatusCode))
                        in if \<not> isCurrentDocument env then postCommand d3 tabs_switch else d3)
                   | categorySuccess_GmStatusCode \<Rightarrow>
                       updateDocument_DocumentWidget x env clk
                         (resetWideRuns_DocumentWidget clk
                            (d2\<lparr> scrollY := init_Anim 0 (ticks clk),
                                 doc := reset_GmDocument (doc d2) \<rparr>))
                         rsp True
                   | categoryRedirect_GmStatusCode \<Rightarrow>
                       if meta rsp = [] then
                         showErrorPage_DocumentWidget x env clk d2 invalidRedirect_GmStatusCode None
                       else
                         (let dstUrl = absoluteUrl_String x (url (mod_state d2)) (meta rsp);
                              d3 = (if redirectCount d2 \<ge> 5 then
                                      showErrorPage_DocumentWidget x env clk d2
                                        tooManyRedirects_GmStatusCode (Some dstUrl)
                                    else if equalCase (urlScheme_String x dstUrl)
                                              (urlScheme_String x (url (mod_state d2))) then
                                      postCommand d2 (open_redirect (redirectCount d2 + 1) dstUrl)
                                    else
                                      showErrorPage_DocumentWidget x env clk d2
                                        schemeChangeRedirect_GmStatusCode (Some dstUrl))
                          in d3\<lparr> request := None \<rparr>)
                   | _ \<Rightarrow>
                       if isDefined_GmError x code then
                         showErrorPage_DocumentWidget x env clk d2 code (Some (meta rsp))
                       else if category_GmStatusCode code = categoryTemporaryFailure_GmStatusCode
                       then showErrorPage_DocumentWidget x env clk d2
                              temporaryFailure_GmStatusCode (Some (meta rsp))
                       else if category_GmStatusCode code = categoryPermanentFailure_GmStatusCode
                       then showErrorPage_DocumentWidget x env clk d2
                              permanentFailure_GmStatusCode (Some (meta rsp))
                       else showErrorPage_DocumentWidget x env clk d2
                              unknownStatusCode_GmStatusCode (Some (meta rsp)))
             else if state d = receivedPartialResponse_RequestState then
               (if category_GmStatusCode code = categorySuccess_GmStatusCode
                then updateDocument_DocumentWidget x env clk d rsp False else d)
             else d)"

definition setRedirectCount_DocumentWidget :: "DocumentWidget \<Rightarrow> int \<Rightarrow> DocumentWidget" where
  "setRedirectCount_DocumentWidget d count = d\<lparr> redirectCount := count \<rparr>"

text \<open>\<open>setUrl_DocumentWidget\<close> is \<open>setUrlFromCache_DocumentWidget\<close> without the cache.\<close>

definition setUrl_DocumentWidget :: "Ext \<Rightarrow> DocumentWidget \<Rightarrow> string \<Rightarrow> DocumentWidget" where
  "setUrl_DocumentWidget x d u =
     fetch_DocumentWidget
       (d\<lparr> flags := flags d - {showLinkNumbers_DocumentWidgetFlag},
           mod_state := (mod_state d)\<lparr> url := urlFragmentStripped_String x u \<rparr> \<rparr>)"

text \<open>The \<open>document.autoreload\<close> branch of \<open>handleCommand_DocumentWidget_\<close>.\<close>

definition handleCommand_document_autoreload :: "iTime \<Rightarrow> DocumentWidget \<Rightarrow> DocumentWidget" where
  "handleCommand_document_autoreload now d =
     (if reloadInterval (mod_state d) \<noteq> 0 then
        (if \<not> isValid_Time (sourceTime d) \<or>
            elapsedSeconds_Time now (sourceTime d) \<ge>
              real_of_int (seconds_ReloadInterval (reloadInterval (mod_state d)))
         then postCommand d document_reload else d)
      else d)"

section \<open>Scrolling\<close>

text \<open>
  The scroll position is an \<open>Anim\<close>, whose values are \<open>float\<close>. In
  \<open>smoothScroll_DocumentWidget_\<close> the sum of the target and the offset is a \<open>float\<close> sum that
  is assigned to an \<open>int\<close>, and the clamped \<open>int\<close> goes back into the \<open>float\<close> target.
\<close>

definition smoothScroll_DocumentWidget ::
  "UiEnv \<Rightarrow> Clock \<Rightarrow> DocumentWidget \<Rightarrow> int \<Rightarrow> int \<Rightarrow> DocumentWidget" where
  "smoothScroll_DocumentWidget env clk d offset duration =
     (let d1 = (if offset \<noteq> 0 \<and> showLinkNumbers_DocumentWidgetFlag \<in> flags d
                then invalidateVisibleLinks_DocumentWidget
                       (d\<lparr> flags := flags d - {showLinkNumbers_DocumentWidgetFlag} \<rparr>)
                else d);
          duration1 = (if \<not> smoothScrolling env then 0 else duration);
          destY0 = toInt32 (roundFloat (targetValue_Anim (scrollY d1) +
                                        roundFloat (real_of_int offset)));
          destY1 = (if destY0 < 0 then 0 else destY0);
          scrollMax = scrollMax_DocumentWidget env d1;
          destY = (if scrollMax > 0 then iMin destY1 scrollMax else 0);
          d2 = d1\<lparr> scrollY :=
                    (if duration1 \<noteq> 0
                     then setValueEased_Anim (scrollY d1) (roundFloat (real_of_int destY))
                            (word_of_int duration1) (ticks clk) (frameTime clk)
                     else setValue_Anim (scrollY d1) (roundFloat (real_of_int destY)) 0
                            (ticks clk) (frameTime clk)) \<rparr>;
          d3 = updateVisible_DocumentWidget env clk d2
      in if duration1 > 0
         then d3\<lparr> flags := insert noHoverWhileScrolling_DocumentWidgetFlag (flags d3) \<rparr>
         else d3)"

definition scroll_DocumentWidget :: "UiEnv \<Rightarrow> Clock \<Rightarrow> DocumentWidget \<Rightarrow> int \<Rightarrow> DocumentWidget" where
  "scroll_DocumentWidget env clk d offset = smoothScroll_DocumentWidget env clk d offset 0"

definition scrollTo_DocumentWidget ::
  "UiEnv \<Rightarrow> Clock \<Rightarrow> DocumentWidget \<Rightarrow> int \<Rightarrow> bool \<Rightarrow> DocumentWidget" where
  "scrollTo_DocumentWidget env clk d documentY centered =
     (let y = (if \<not> hasSiteBanner_GmDocument (doc d)
               then documentY + pageMargin d * gap_UI env else documentY);
          v = y - (if centered then cdiv (size_y (documentBounds_DocumentWidget env d)) 2
                   else lineHeight env)
      in scroll_DocumentWidget env clk
           (d\<lparr> scrollY := init_Anim (roundFloat (real_of_int v)) (ticks clk) \<rparr>) 0)"

text \<open>The \<open>scroll.top\<close> and \<open>scroll.bottom\<close> branches of \<open>handleCommand_DocumentWidget_\<close>.\<close>

definition handleCommand_scroll_top :: "UiEnv \<Rightarrow> Clock \<Rightarrow> DocumentWidget \<Rightarrow> DocumentWidget" where
  "handleCommand_scroll_top env clk d =
     (if isCurrentDocument env then
        updateVisible_DocumentWidget env clk
          (scroll_DocumentWidget env clk (d\<lparr> scrollY := init_Anim 0 (ticks clk) \<rparr>) 0)
      else d)"

definition handleCommand_scroll_bottom :: "UiEnv \<Rightarrow> Clock \<Rightarrow> DocumentWidget \<Rightarrow> DocumentWidget" where
  "handleCommand_scroll_bottom env clk d =
     (if isCurrentDocument env then
        updateVisible_DocumentWidget env clk
          (scroll_DocumentWidget env clk
             (d\<lparr> scrollY := init_Anim (roundFloat (real_of_int (scrollMax_DocumentWidget env d)))
                                (ticks clk) \<rparr>) 0)
      else d)"

definition isEmpty_Rect :: "iRect \<Rightarrow> bool" where
  "isEmpty_Rect r \<longleftrightarrow> size_x r * size_y r = 0"

definition find_MiddleRunParams ::
  "DocumentWidget \<Rightarrow> int \<Rightarrow> (nat \<times> int) option \<Rightarrow> nat \<Rightarrow> (nat \<times> int) option" where
  "find_MiddleRunParams d midY params p =
     (if isEmpty_Rect (bounds (runAt d p)) then params
      else
        let dnew = \<bar>mid_Rect_y (bounds (runAt d p)) - midY\<bar>
        in case params of
             None \<Rightarrow> Some (p, dnew)
           | Some (closest, dold) \<Rightarrow> if dnew < dold then Some (p, dnew) else params)"

definition middleRun_DocumentWidget :: "UiEnv \<Rightarrow> Clock \<Rightarrow> DocumentWidget \<Rightarrow> nat option" where
  "middleRun_DocumentWidget env clk d =
     (let visRange = visibleRange_DocumentWidget env clk d;
          midY = cdiv (fst visRange + snd visRange) 2
      in map_option fst
           (foldl (find_MiddleRunParams d midY) None (render_GmDocument (doc d) visRange)))"

definition updateDocumentWidthRetainingScrollPosition_DocumentWidget ::
  "Ext \<Rightarrow> UiEnv \<Rightarrow> Clock \<Rightarrow> DocumentWidget \<Rightarrow> bool \<Rightarrow> DocumentWidget" where
  "updateDocumentWidthRetainingScrollPosition_DocumentWidget x env clk d keepCenter =
     (let run = (if keepCenter then middleRun_DocumentWidget env clk d else firstVisibleRun d);
          runLoc = map_option (\<lambda>p. textStart (runAt d p)) run;
          voffset = (case run of
                       None \<Rightarrow> 0
                     | Some p \<Rightarrow>
                         if \<not> keepCenter
                         then fst (visibleRange_DocumentWidget env clk d) -
                              top_Rect (visBounds (runAt d p))
                         else 0);
          d1 = documentRunsInvalidated_DocumentWidget
                 (d\<lparr> doc := setWidth_GmDocument x (doc d) (documentWidth env) \<rparr>)
      in case runLoc of
           None \<Rightarrow> d1
         | Some loc \<Rightarrow>
             (case findRunAtLoc_GmDocument x (doc d1) loc of
                None \<Rightarrow> d1
              | Some r \<Rightarrow>
                  if \<not> keepCenter then
                    scrollTo_DocumentWidget env clk d1
                      (top_Rect (visBounds (runAt d1 r)) + lineHeight env + voffset) False
                  else
                    scrollTo_DocumentWidget env clk d1 (mid_Rect_y (bounds (runAt d1 r))) True))"

text \<open>
  The \<open>window.resized\<close> branch of \<open>handleCommand_DocumentWidget_\<close>. The side icon buffer, the
  visible buffer and the window title that the branch also refreshes are drawing state, which
  the widget record does not hold.
\<close>

definition handleCommand_window_resized ::
  "Ext \<Rightarrow> UiEnv \<Rightarrow> Clock \<Rightarrow> DocumentWidget \<Rightarrow> DocumentWidget" where
  "handleCommand_window_resized x env clk d =
     invalidate_DocumentWidget
       (updateDocumentWidthRetainingScrollPosition_DocumentWidget x env clk
          (d\<lparr> flags := flags d - {showLinkNumbers_DocumentWidgetFlag} \<rparr>) False)"

text \<open>
  \<open>resize_Array\<close> fills new elements with zero. \<open>at_Array\<close> with an index outside the array
  is an error; \<open>scrollWideBlock_DocumentWidget_\<close> then has no result. The loops over a run
  range visit the indices from its start up to its end.
\<close>

definition resize_Array :: "int list \<Rightarrow> nat \<Rightarrow> int list" where
  "resize_Array a n = take n a @ replicate (n - length a) 0"

definition hitWideRun :: "UiEnv \<Rightarrow> Clock \<Rightarrow> DocumentWidget \<Rightarrow> int \<times> int \<Rightarrow> nat option" where
  "hitWideRun env clk d mousePos =
     (let docPos = documentPos_DocumentWidget env clk d mousePos
      in find (\<lambda>p. snd docPos \<ge> top_Rect (bounds (runAt d p)) \<and>
                   snd docPos \<le> bottom_Rect (bounds (runAt d p)))
           (visibleWideRuns d))"

definition maxOffset_wideBlock :: "Ext \<Rightarrow> UiEnv \<Rightarrow> DocumentWidget \<Rightarrow> nat \<Rightarrow> int" where
  "maxOffset_wideBlock x env d p =
     (let range = findPreformattedRange_GmDocument x (doc d) p;
          maxWidth = foldl (\<lambda>m r. iMax m (width_Rect (visBounds (runAt d r)))) 0
                       [fst range ..< snd range]
      in maxWidth - documentWidth env + pageMargin d * gap_UI env)"

definition scrollWideBlock_DocumentWidget ::
  "Ext \<Rightarrow> UiEnv \<Rightarrow> Clock \<Rightarrow> DocumentWidget \<Rightarrow> int \<times> int \<Rightarrow> int \<Rightarrow> int
   \<Rightarrow> DocumentWidget option" where
  "scrollWideBlock_DocumentWidget x env clk d mousePos delta duration =
     (if delta = 0 then Some d
      else
        case hitWideRun env clk d mousePos of
          None \<Rightarrow> Some d
        | Some p \<Rightarrow>
            (let run = runAt d p;
                 range = findPreformattedRange_GmDocument x (doc d) p;
                 maxOffset = maxOffset_wideBlock x env d p;
                 offsets = (if length (wideRunOffsets d) \<le> preId run
                            then resize_Array (wideRunOffsets d) (preId run + 1)
                            else wideRunOffsets d)
             in if preId run = 0 then None
                else
                  (let oldOffset = offsets ! (preId run - 1);
                       newOffset = iClamp (wrap32 (oldOffset + delta)) 0 maxOffset;
                       d1 = d\<lparr> wideRunOffsets := offsets[preId run - 1 := newOffset] \<rparr>;
                       d2 = (if oldOffset \<noteq> newOffset
                             then d1\<lparr> invalidRuns := foldl insert_PtrSet (invalidRuns d1)
                                                        [fst range ..< snd range],
                                      selectMark := None, foundMark := None \<rparr>
                             else d1)
                   in Some
                        (if duration \<noteq> 0 then
                           (let d3 = (if animWideRunId d2 \<noteq> preId run \<or>
                                         isFinished_Anim (animWideRunOffset d2) (frameTime clk)
                                      then d2\<lparr> animWideRunId := preId run,
                                               animWideRunOffset :=
                                                 init_Anim (real_of_int oldOffset) (ticks clk) \<rparr>
                                      else d2)
                            in d3\<lparr> animWideRunOffset :=
                                     setValueEased_Anim (animWideRunOffset d3)
                                       (real_of_int newOffset) (word_of_int duration)
                                       (ticks clk) (frameTime clk),
                                   animWideRunRange := range \<rparr>)
                         else d2\<lparr> animWideRunId := 0,
                                  animWideRunOffset := init_Anim 0 (ticks clk) \<rparr>))))"

section \<open>Media requests\<close>

fun removeMediaRequest_list :: "MediaRequest list \<Rightarrow> nat \<Rightarrow> MediaRequest list" where
  "removeMediaRequest_list [] lnk = []"
| "removeMediaRequest_list (m # ms) lnk =
     (if mr_linkId m = lnk then ms else m # removeMediaRequest_list ms lnk)"

definition removeMediaRequest_DocumentWidget :: "DocumentWidget \<Rightarrow> nat \<Rightarrow> DocumentWidget" where
  "removeMediaRequest_DocumentWidget d lnk =
     d\<lparr> media := removeMediaRequest_list (media d) lnk \<rparr>"

definition findMediaRequest_DocumentWidget :: "DocumentWidget \<Rightarrow> nat \<Rightarrow> MediaRequest option" where
  "findMediaRequest_DocumentWidget d lnk = find (\<lambda>m. mr_linkId m = lnk) (media d)"

definition new_MediaRequest :: "nat \<Rightarrow> string \<Rightarrow> bool \<Rightarrow> MediaRequest" where
  "new_MediaRequest lnk mediaUrl enableFilters =
     \<lparr> mr_linkId = lnk, mr_url = mediaUrl, mr_enableFilters = enableFilters,
       mr_req = new_GmRequest \<rparr>"

definition requestMedia_DocumentWidget ::
  "Ext \<Rightarrow> DocumentWidget \<Rightarrow> nat \<Rightarrow> bool \<Rightarrow> DocumentWidget \<times> bool" where
  "requestMedia_DocumentWidget x d lnk enableFilters =
     (if findMediaRequest_DocumentWidget d lnk = None then
        (let mediaUrl = absoluteUrl_String x (url (mod_state d)) (linkUrl_GmDocument x (doc d) lnk)
         in (invalidate_DocumentWidget
               (d\<lparr> media := media d @ [new_MediaRequest lnk mediaUrl enableFilters] \<rparr>), True))
      else (d, False))"

definition isDownloadRequest_DocumentWidget :: "Ext \<Rightarrow> DocumentWidget \<Rightarrow> MediaRequest \<Rightarrow> bool" where
  "isDownloadRequest_DocumentWidget x d req \<longleftrightarrow>
     findLinkDownload_Media x (doc d) (mr_linkId req) \<noteq> 0"

datatype MediaCommand = media_updated | media_finished

text \<open>
  \<open>handleMediaCommand_DocumentWidget_\<close> receives a pointer to a media request, which may
  have been deleted already, and looks for it among the widget's requests.
\<close>

definition handleMediaCommand_DocumentWidget ::
  "Ext \<Rightarrow> UiEnv \<Rightarrow> Clock \<Rightarrow> DocumentWidget \<Rightarrow> MediaCommand \<Rightarrow> MediaRequest
   \<Rightarrow> DocumentWidget \<times> bool" where
  "handleMediaCommand_DocumentWidget x env clk d cmd req =
     (if req \<notin> set (media d) then (d, False)
      else
        let code = status_GmRequest (mr_req req);
            rsp = resp (mr_req req)
        in case cmd of
             media_updated \<Rightarrow>
               (let d1 = (if isSuccess_GmStatusCode code \<and>
                             (isDownloadRequest_DocumentWidget x d req \<or>
                              startsWith (meta rsp) ''audio/'')
                          then invalidate_DocumentWidget
                                 (updateVisible_DocumentWidget env clk
                                    (d\<lparr> doc := redoLayout_GmDocument x
                                                   (setData_Media (doc d) (mr_linkId req)
                                                      (meta rsp) (body rsp) True) \<rparr>))
                          else d)
                in (invalidateLink_DocumentWidget d1 (mr_linkId req), True))
           | media_finished \<Rightarrow>
               if isSuccess_GmStatusCode code then
                 (if isDownloadRequest_DocumentWidget x d req \<or>
                     startsWith (meta rsp) ''image/'' \<or> startsWith (meta rsp) ''audio/''
                  then invalidate_DocumentWidget
                         (updateVisible_DocumentWidget env clk
                            (d\<lparr> doc := redoLayout_GmDocument x
                                           (setData_Media (doc d) (mr_linkId req)
                                              (meta rsp) (body rsp) False) \<rparr>))
                  else d, True)
               else
                 (removeMediaRequest_DocumentWidget
                    (postCommand d
                       (message_dialog (title (get_GmError x code)) (info (get_GmError x code))))
                    (mr_linkId req), True))"

text \<open>
  Sequences of operations on the media requests of a widget: a click that requests the
  media of a link, a dismissal that cancels it, the background fetch reporting progress on
  its request object, the two media commands, and a new fetch of the page.
\<close>

datatype MediaOp =
    op_request nat bool
  | op_cancel nat
  | op_progress nat GmRequest
  | op_command MediaCommand MediaRequest
  | op_fetch

fun mediaStep :: "Ext \<Rightarrow> UiEnv \<Rightarrow> Clock \<Rightarrow> DocumentWidget \<Rightarrow> MediaOp \<Rightarrow> DocumentWidget" where
  "mediaStep x env clk d (op_request lnk f) = fst (requestMedia_DocumentWidget x d lnk f)"
| "mediaStep x env clk d (op_cancel lnk) = removeMediaRequest_DocumentWidget d lnk"
| "mediaStep x env clk d (op_progress lnk rq) =
     d\<lparr> media := map (\<lambda>m. if mr_linkId m = lnk then m\<lparr> mr_req := rq \<rparr> else m) (media d) \<rparr>"
| "mediaStep x env clk d (op_command c req) =
     fst (handleMediaCommand_DocumentWidget x env clk d c req)"
| "mediaStep x env clk d op_fetch = fetch_DocumentWidget d"

definition mediaRequestCount :: "DocumentWidget \<Rightarrow> nat \<Rightarrow> nat" where
  "mediaRequestCount d lnk = length (filter (\<lambda>m. mr_linkId m = lnk) (media d))"

section \<open>Redirect chains\<close>

text \<open>
  Modelled from the spec: the application's handling of the \<open>open\<close> command is not part of
  the widget. For a redirect it sets the redirect count of the widget from the command and
  then the URL, which starts the next fetch.
\<close>

definition openRedirect :: "Ext \<Rightarrow> DocumentWidget \<Rightarrow> int \<Rightarrow> string \<Rightarrow> DocumentWidget" where
  "openRedirect x d n u = setUrl_DocumentWidget x (setRedirectCount_DocumentWidget d n) u"

definition redirectTo :: "string \<Rightarrow> GmRequest" where
  "redirectTo target =
     \<lparr> resp = \<lparr> statusCode = wire 30, meta = target, body = [], resp_when = zero_Time,
                resp_certFlags = {} \<rparr>,
       isFinished_GmRequest = True \<rparr>"

text \<open>
  One round of a chain: the request of the widget receives a redirect to \<open>target\<close>, the
  widget checks the response, and the application carries out the \<open>open\<close> command when the
  widget has posted one.
\<close>

definition redirectRound ::
  "Ext \<Rightarrow> UiEnv \<Rightarrow> Clock \<Rightarrow> string \<Rightarrow> DocumentWidget \<Rightarrow> DocumentWidget" where
  "redirectRound x env clk target d =
     (let d1 = checkResponse_DocumentWidget x env clk (d\<lparr> request := Some (redirectTo target) \<rparr>)
      in case drop (length (posted d)) (posted d1) of
           [open_redirect n u] \<Rightarrow> openRedirect x d1 n u
         | _ \<Rightarrow> d1)"

fun isOpen :: "Command \<Rightarrow> bool" where
  "isOpen (open_redirect n u) = True"
| "isOpen c = False"

definition openCount :: "DocumentWidget \<Rightarrow> nat" where
  "openCount d = length (filter isOpen (posted d))"

text \<open>A chain of redirects: one round for each target of the list, in order.\<close>

fun redirectChain ::
  "Ext \<Rightarrow> UiEnv \<Rightarrow> Clock \<Rightarrow> string list \<Rightarrow> DocumentWidget \<Rightarrow> DocumentWidget" where
  "redirectChain x env clk [] d = d"
| "redirectChain x env clk (t # ts) d =
     redirectChain x env clk ts (redirectRound x env clk t d)"

text \<open>
  The chain stays in one scheme when every target is non-empty and, resolved against the
  URL the widget has when the redirect arrives, has the scheme of that URL.
\<close>

fun sameSchemeChain ::
  "Ext \<Rightarrow> UiEnv \<Rightarrow> Clock \<Rightarrow> string list \<Rightarrow> DocumentWidget \<Rightarrow> bool" where
  "sameSchemeChain x env clk [] d = True"
| "sameSchemeChain x env clk (t # ts) d =
     (t \<noteq> [] \<and>
      equalCase (urlScheme_String x (absoluteUrl_String x (url (mod_state d)) t))
        (urlScheme_String x (url (mod_state d))) \<and>
      sameSchemeChain x env clk ts (redirectRound x env clk t d))"
section \<open>Reading the MIME type\<close>










section \<open>Sample surroundings\<close>

text \<open>
  Concrete stand-ins for the functions of the other modules and for the surroundings of
  the widget, used where a statement is evaluated on an example: URLs resolve to the
  reference itself, the scheme is the text before the first colon, decoding marks the text
  with the character set, and laying a document out again keeps its runs.
\<close>

fun sampleTitle :: "iGmStatusCode \<Rightarrow> string" where
  "sampleTitle invalidRedirect_GmStatusCode = ''Invalid Redirect''"
| "sampleTitle schemeChangeRedirect_GmStatusCode = ''Scheme-Changing Redirect''"
| "sampleTitle tooManyRedirects_GmStatusCode = ''Too Many Redirects''"
| "sampleTitle unsupportedMimeType_GmStatusCode = ''Unsupported MIME Type''"
| "sampleTitle c = ''Error''"

definition sampleExt :: Ext where
  "sampleExt =
     \<lparr> absoluteUrl_String = (\<lambda>base ref. ref),
       urlScheme_String = takeWhile (\<lambda>c. c \<noteq> CHR '':''),
       urlPath = (\<lambda>u. []),
       baseName_Path = (\<lambda>p. p),
       get_GmError = (\<lambda>c. \<lparr> icon = [], title = sampleTitle c, info = [] \<rparr>),
       isDefined_GmError = (\<lambda>c. False),
       decode_Block = (\<lambda>s cs. ''<'' @ cs @ ''>'' @ s),
       doLayout = (\<lambda>dc. (layout dc, docHeight dc, siteBanner dc)),
       findPreformattedRange_GmDocument = (\<lambda>doc p. (p, Suc p)),
       findRunAtLoc_GmDocument = (\<lambda>doc loc. None),
       linkUrl_GmDocument = (\<lambda>doc l. []),
       findLinkDownload_Media = (\<lambda>doc l. 0),
       urlFragmentStripped_String = (\<lambda>u. u),
       saveKeyLabel = ''Ctrl+S'' \<rparr>"

definition sampleEnv :: UiEnv where
  "sampleEnv =
     \<lparr> gap_UI = 4, gap_Text = 4,
       widgetBounds = \<lparr> pos_x = 0, pos_y = 0, size_x = 800, size_y = 400 \<rparr>,
       documentWidth = 500, lineHeight = 20, smoothScrolling = True, centerShortDocs = False,
       isCurrentDocument = True, isHover = False, mouseCoord = (0, 0) \<rparr>"

definition sampleClock :: Clock where
  "sampleClock = \<lparr> ticks = 1000, frameTime = 1000 \<rparr>"

definition sampleResponse :: "nat \<Rightarrow> string \<Rightarrow> string \<Rightarrow> GmResponse" where
  "sampleResponse code m b =
     \<lparr> statusCode = wire code, meta = m, body = b,
       resp_when = \<lparr> tv_sec = 1000, tv_nsec = 0 \<rparr>, resp_certFlags = {} \<rparr>"

definition sampleRun :: "int \<Rightarrow> int \<Rightarrow> int \<Rightarrow> GmRun" where
  "sampleRun y h w =
     \<lparr> bounds = \<lparr> pos_x = 0, pos_y = y, size_x = w, size_y = h \<rparr>,
       visBounds = \<lparr> pos_x = 0, pos_y = y, size_x = w, size_y = h \<rparr>,
       runFlags = {}, preId = 0, linkId = 0, mediaId = 0, mediaType = none_GmRunMediaType,
       textStart = 0 \<rparr>"

text \<open>A widget that fetches \<open>u\<close> with the redirect count \<open>n\<close> and has received a redirect.\<close>

definition sampleFetching :: "string \<Rightarrow> int \<Rightarrow> string \<Rightarrow> DocumentWidget" where
  "sampleFetching u n target =
     (fetch_DocumentWidget
        ((init_DocumentWidget sampleClock)
           \<lparr> mod_state := \<lparr> history = [], url = u, reloadInterval = 0 \<rparr> \<rparr>))
       \<lparr> redirectCount := n, request := Some (redirectTo target) \<rparr>"

text \<open>
  A page that consists of one inline image, 1000 pixels high, and the surroundings after the
  window has been made 900 pixels high.
\<close>

definition sampleImagePage :: DocumentWidget where
  "sampleImagePage =
     (init_DocumentWidget sampleClock)
       \<lparr> doc := new_GmDocument
                  \<lparr> layout := [(sampleRun 0 1000 400)
                                 \<lparr> mediaId := 1, mediaType := image_GmRunMediaType \<rparr>],
                    docHeight := 1000 \<rparr> \<rparr>"

definition sampleTallEnv :: UiEnv where
  "sampleTallEnv = sampleEnv\<lparr> widgetBounds := \<lparr> pos_x = 0, pos_y = 0, size_x = 800, size_y = 900 \<rparr> \<rparr>"

section \<open>Properties of the persistent state\<close>

lemma startsWith_iff: "startsWith s p \<longleftrightarrow> (\<exists>r. s = p @ r)"
  by (induction s p rule: startsWith.induct) auto

lemma indexOfCStr_iff: "indexOfCStr s p \<noteq> None \<longleftrightarrow> (\<exists>a b. s = a @ p @ b)"
proof (induction s)
  case Nil
  then show ?case by simp
next
  case (Cons c cs)
  show ?case
  proof (cases "startsWith (c # cs) p")
    case True
    then obtain r where "c # cs = p @ r" by (auto simp: startsWith_iff)
    then have "c # cs = [] @ p @ r" by simp
    then have "\<exists>a b. c # cs = a @ p @ b" by blast
    with True show ?thesis by (simp del: startsWith.simps)
  next
    case False
    have "(\<exists>a b. c # cs = a @ p @ b) \<longleftrightarrow> (\<exists>a b. cs = a @ p @ b)"
    proof
      assume "\<exists>a b. c # cs = a @ p @ b"
      then obtain a b where ab: "c # cs = a @ p @ b" by blast
      show "\<exists>a b. cs = a @ p @ b"
      proof (cases a)
        case Nil
        with ab False show ?thesis by (simp add: startsWith_iff del: startsWith.simps)
      next
        case (Cons x a')
        with ab show ?thesis by auto
      qed
    next
      assume "\<exists>a b. cs = a @ p @ b"
      then obtain a b where "cs = a @ p @ b" by blast
      then have "c # cs = (c # a) @ p @ b" by simp
      then show "\<exists>a b. c # cs = a @ p @ b" by blast
    qed
    with False Cons.IH show ?thesis by (simp del: startsWith.simps)
  qed
qed

lemma bytes4:
  assumes "(x::nat) < 4294967296"
  shows "x mod 256 + 256 * (x div 256 mod 256) + 65536 * (x div 65536 mod 256)
        + 16777216 * (x div 16777216 mod 256) = x"
proof -
  define a where "a = x div 256"
  define b where "b = a div 256"
  define c where "c = b div 256"
  have b: "x div 65536 = b" unfolding b_def a_def by (simp add: div_mult2_eq [symmetric])
  have c: "x div 16777216 = c" unfolding c_def b_def a_def by (simp add: div_mult2_eq [symmetric])
  have c_lt: "c < 256" using assms unfolding c [symmetric] by simp
  have 1: "x = x mod 256 + 256 * a" unfolding a_def by simp
  have 2: "a = a mod 256 + 256 * b" unfolding b_def by simp
  have 3: "b = b mod 256 + 256 * c" unfolding c_def by simp
  have "x mod 256 + 256 * (a mod 256) + 65536 * (b mod 256) + 16777216 * c = x"
    using 1 2 3 by linarith
  then show ?thesis using c_lt by (simp add: b c a_def [symmetric])
qed

lemma bytes2:
  assumes "(x::nat) < 65536"
  shows "x mod 256 + 256 * (x div 256 mod 256) = x"
proof -
  have "x div 256 < 256" using assms by simp
  then show ?thesis by simp
qed

lemma readU32_writeU32:
  "readU32_Stream (writeU32_Stream [] v @ rest) = (v, rest)"
proof -
  let ?s = "writeU32_Stream [] v @ rest"
  have lt: "unat v < 4294967296" using unsigned_less [of v, where ?'a = nat] by simp
  have "byteAt ?s 0 + 256 * byteAt ?s 1 + 65536 * byteAt ?s 2 + 16777216 * byteAt ?s 3 =
        unat v mod 256 + 256 * (unat v div 256 mod 256) + 65536 * (unat v div 65536 mod 256)
        + 16777216 * (unat v div 16777216 mod 256)"
    by (simp add: writeU32_Stream_def byteAt_def)
  also have "\<dots> = unat v"
    using lt by (rule bytes4)
  finally have val: "byteAt ?s 0 + 256 * byteAt ?s 1 + 65536 * byteAt ?s 2
                     + 16777216 * byteAt ?s 3 = unat v" .
  have rest: "drop 4 ?s = rest"
    by (simp add: writeU32_Stream_def)
  show ?thesis
    unfolding readU32_Stream_def val rest by simp
qed

lemma readU16_writeU16:
  "readU16_Stream (writeU16_Stream [] v @ rest) = (v, rest)"
proof -
  let ?s = "writeU16_Stream [] v @ rest"
  have lt: "unat v < 65536" using unsigned_less [of v, where ?'a = nat] by simp
  have "byteAt ?s 0 + 256 * byteAt ?s 1 = unat v mod 256 + 256 * (unat v div 256 mod 256)"
    by (simp add: writeU16_Stream_def byteAt_def)
  also have "\<dots> = unat v"
    using lt by (rule bytes2)
  finally have val: "byteAt ?s 0 + 256 * byteAt ?s 1 = unat v" .
  have rest: "drop 2 ?s = rest"
    by (simp add: writeU16_Stream_def)
  show ?thesis
    unfolding readU16_Stream_def val rest by simp
qed

lemma deserialize_serialize_String:
  assumes "length s < 2 ^ 32"
  shows "deserialize_String (serialize_String s [] @ rest) = (s, rest)"
proof -
  have "unat (word_of_nat (length s) :: 32 word) = length s"
    using assms by (simp add: unat_of_nat take_bit_nat_eq_self)
  then show ?thesis
    by (simp add: deserialize_String_def serialize_String_def readU32_writeU32)
qed

lemma writeU16_append: "writeU16_Stream outs v = outs @ writeU16_Stream [] v"
  by (simp add: writeU16_Stream_def)

lemma interval_and_7:
  assumes "0 \<le> (i::int)" "i \<le> 7"
  shows "i AND 7 = i"
proof -
  have "take_bit 3 i = i" using assms by (simp add: take_bit_int_eq_self)
  then show ?thesis by (simp add: take_bit_eq_mask mask_eq_exp_minus_1)
qed

text \<open>
  C3. Writing the persistent state to a fresh stream and reading it back gives the same
  URL and the same reload interval, for every interval 0..7 and every URL whose byte count
  fits the 32-bit length prefix; a URL that contains the marker \<open>'' ptr:0x''\<close> is read
  back as the empty string.
\<close>

theorem persistent_state_roundtrip:
  assumes "length (url d) < 2 ^ 32"
    and "0 \<le> reloadInterval d" and "reloadInterval d \<le> 7"
  shows "url (fst (deserialize_PersistentDocumentState d0
                    (serialize_PersistentDocumentState d []))) =
           (if indexOfCStr (url d) corruptionMarker \<noteq> None then [] else url d)
       \<and> reloadInterval (fst (deserialize_PersistentDocumentState d0
                    (serialize_PersistentDocumentState d []))) = reloadInterval d"
proof -
  let ?w = "word_of_int (reloadInterval d AND 7) :: 16 word"
  have ser: "serialize_PersistentDocumentState d [] =
               serialize_String (url d) [] @ (writeU16_Stream [] ?w @ history d)"
    by (simp add: serialize_PersistentDocumentState_def serialize_History_def Let_def
        writeU16_append [of "serialize_String (url d) []"])
  have i7: "reloadInterval d AND 7 = reloadInterval d"
    using assms(2,3) by (rule interval_and_7)
  have "uint ?w = reloadInterval d"
    using assms(2,3) by (simp add: i7 uint_word_of_int)
  then have rd: "uint ?w AND 7 = reloadInterval d"
    using i7 by simp
  show ?thesis
    unfolding ser deserialize_PersistentDocumentState_def
    by (simp add: deserialize_serialize_String [OF assms(1)] readU16_writeU16
        deserialize_History_def rd Let_def)
qed

theorem persistent_state_roundtrip_witness:
  "url (fst (deserialize_PersistentDocumentState init_PersistentDocumentState
         (serialize_PersistentDocumentState
            \<lparr> history = ''h'', url = ''gemini://example/'', reloadInterval = 5 \<rparr> [])))
     = ''gemini://example/''
   \<and> reloadInterval (fst (deserialize_PersistentDocumentState init_PersistentDocumentState
         (serialize_PersistentDocumentState
            \<lparr> history = ''h'', url = ''gemini://example/'', reloadInterval = 5 \<rparr> []))) = 5"
  using persistent_state_roundtrip
    [of "\<lparr> history = ''h'', url = ''gemini://example/'', reloadInterval = 5 \<rparr>"
        init_PersistentDocumentState]
  by (simp add: corruptionMarker_def)

section \<open>Properties of animated scalars\<close>

lemma curve_easeBoth: "easeBoth t = spec_curve {easeIn_AnimFlag, easeOut_AnimFlag} t"
proof (cases "t < 1 / 2")
  case True
  then show ?thesis
    by (simp add: easeBoth_def easeIn_def spec_curve_def power2_eq_square)
next
  case False
  have "1 / 2 + (t - 1 / 2) * 2 * (2 - (t - 1 / 2) * 2) * (1 / 2) =
        1 / 2 + (2 * t - 1) * (2 - (2 * t - 1)) / 2"
    by (simp add: field_simps)
  with False show ?thesis
    by (simp add: easeBoth_def easeOut_def spec_curve_def)
qed

lemma ticks_between:
  fixes now w d :: "32 word"
  assumes "\<not> now \<ge> d" and "\<not> now \<le> w"
  shows "real (unat (now - w)) = real (unat now) - real (unat w)"
    and "real (unat (d - w)) = real (unat d) - real (unat w)"
proof -
  have 1: "w \<le> now" using assms(2) by simp
  have 2: "w \<le> d" using assms by simp
  have le1: "unat w \<le> unat now" using 1 by (simp add: word_le_nat_alt)
  have le2: "unat w \<le> unat d" using 2 by (simp add: word_le_nat_alt)
  show "real (unat (now - w)) = real (unat now) - real (unat w)"
    using le1 by (simp add: unat_sub [OF 1] of_nat_diff)
  show "real (unat (d - w)) = real (unat d) - real (unat w)"
    using le2 by (simp add: unat_sub [OF 2] of_nat_diff)
qed

text \<open>
  C8. The value of an animated scalar at tick \<open>t\<close> is \<open>to\<close> from the due time on,
  \<open>from\<close> up to the start time, and in between \<open>from + (to - from) * ease n\<close> with
  \<open>n = (t - when) / (due - when)\<close> and \<open>ease\<close> the curve selected by the flags, applied
  twice when the softer flag is set.
\<close>

theorem valueAt_Anim_spec:
  "valueAt_Anim d t =
     (if t \<ge> anim_due d then anim_to d
      else if t \<le> anim_when d then anim_from d
      else anim_from d + (anim_to d - anim_from d) *
             spec_ease (anim_flags d)
               ((real (unat t) - real (unat (anim_when d))) /
                (real (unat (anim_due d)) - real (unat (anim_when d)))))"
proof (cases "t \<ge> anim_due d \<or> t \<le> anim_when d")
  case True
  then show ?thesis by (auto simp: valueAt_Anim_def)
next
  case False
  then have a: "\<not> t \<ge> anim_due d" and b: "\<not> t \<le> anim_when d" by simp_all
  have n: "pos_Anim d t = (real (unat t) - real (unat (anim_when d))) /
             (real (unat (anim_due d)) - real (unat (anim_when d)))"
    unfolding pos_Anim_def using ticks_between [OF a b] by simp
  define n where "n = pos_Anim d t"
  define fl where "fl = anim_flags d"
  have lin: "\<And>x y e::real. x * (1 - e) + y * e = x + (y - x) * e"
    by (simp add: algebra_simps)
  have "valueAt_Anim d t = anim_from d + (anim_to d - anim_from d) * spec_ease fl n"
    using a b unfolding valueAt_Anim_def Let_def lin n_def [symmetric] fl_def [symmetric]
    by (simp add: spec_ease_def curve_easeBoth easeBoth_AnimFlag_def)
       (simp add: spec_curve_def easeIn_def easeOut_def power2_eq_square)
  then show ?thesis using a b by (simp add: n n_def fl_def)
qed

section \<open>What the view update leaves alone\<close>

lemma invalidateLink_frame [simp]:
  "media (invalidateLink_DocumentWidget d l) = media d"
  "doc (invalidateLink_DocumentWidget d l) = doc d"
  "scrollY (invalidateLink_DocumentWidget d l) = scrollY d"
  "state (invalidateLink_DocumentWidget d l) = state d"
  "mod_state (invalidateLink_DocumentWidget d l) = mod_state d"
  "sourceMime (invalidateLink_DocumentWidget d l) = sourceMime d"
  "sourceTime (invalidateLink_DocumentWidget d l) = sourceTime d"
  "pageMargin (invalidateLink_DocumentWidget d l) = pageMargin d"
  "request (invalidateLink_DocumentWidget d l) = request d"
  "posted (invalidateLink_DocumentWidget d l) = posted d"
  "visibleLinks (invalidateLink_DocumentWidget d l) = visibleLinks d"
  "firstVisibleRun (invalidateLink_DocumentWidget d l) = firstVisibleRun d"
  by (simp_all add: invalidateLink_DocumentWidget_def)

lemma invalidateVisibleLinks_frame [simp]:
  "media (invalidateVisibleLinks_DocumentWidget d) = media d"
  "doc (invalidateVisibleLinks_DocumentWidget d) = doc d"
  "scrollY (invalidateVisibleLinks_DocumentWidget d) = scrollY d"
  "state (invalidateVisibleLinks_DocumentWidget d) = state d"
  "mod_state (invalidateVisibleLinks_DocumentWidget d) = mod_state d"
  "pageMargin (invalidateVisibleLinks_DocumentWidget d) = pageMargin d"
  "firstVisibleRun (invalidateVisibleLinks_DocumentWidget d) = firstVisibleRun d"
  by (simp_all add: invalidateVisibleLinks_DocumentWidget_def)

lemma addVisible_frame [simp]:
  "media (addVisible_DocumentWidget d p) = media d"
  "doc (addVisible_DocumentWidget d p) = doc d"
  "scrollY (addVisible_DocumentWidget d p) = scrollY d"
  "state (addVisible_DocumentWidget d p) = state d"
  "mod_state (addVisible_DocumentWidget d p) = mod_state d"
  "sourceMime (addVisible_DocumentWidget d p) = sourceMime d"
  "sourceTime (addVisible_DocumentWidget d p) = sourceTime d"
  "pageMargin (addVisible_DocumentWidget d p) = pageMargin d"
  "request (addVisible_DocumentWidget d p) = request d"
  "posted (addVisible_DocumentWidget d p) = posted d"
  by (simp_all add: addVisible_DocumentWidget_def Let_def)

lemma foldl_addVisible_frame [simp]:
  "media (foldl addVisible_DocumentWidget d ps) = media d"
  "doc (foldl addVisible_DocumentWidget d ps) = doc d"
  "scrollY (foldl addVisible_DocumentWidget d ps) = scrollY d"
  "state (foldl addVisible_DocumentWidget d ps) = state d"
  "mod_state (foldl addVisible_DocumentWidget d ps) = mod_state d"
  "sourceMime (foldl addVisible_DocumentWidget d ps) = sourceMime d"
  "sourceTime (foldl addVisible_DocumentWidget d ps) = sourceTime d"
  "pageMargin (foldl addVisible_DocumentWidget d ps) = pageMargin d"
  "request (foldl addVisible_DocumentWidget d ps) = request d"
  "posted (foldl addVisible_DocumentWidget d ps) = posted d"
  by (induction ps arbitrary: d; simp)+

lemma updateHover_frame [simp]:
  "media (updateHover_DocumentWidget env clk d m) = media d"
  "doc (updateHover_DocumentWidget env clk d m) = doc d"
  "scrollY (updateHover_DocumentWidget env clk d m) = scrollY d"
  "state (updateHover_DocumentWidget env clk d m) = state d"
  "mod_state (updateHover_DocumentWidget env clk d m) = mod_state d"
  "sourceMime (updateHover_DocumentWidget env clk d m) = sourceMime d"
  "sourceTime (updateHover_DocumentWidget env clk d m) = sourceTime d"
  "pageMargin (updateHover_DocumentWidget env clk d m) = pageMargin d"
  "request (updateHover_DocumentWidget env clk d m) = request d"
  "posted (updateHover_DocumentWidget env clk d m) = posted d"
  "firstVisibleRun (updateHover_DocumentWidget env clk d m) = firstVisibleRun d"
  by (simp_all add: updateHover_DocumentWidget_def Let_def split: option.splits)

lemma updateVisible_frame [simp]:
  "media (updateVisible_DocumentWidget env clk d) = media d"
  "doc (updateVisible_DocumentWidget env clk d) = doc d"
  "scrollY (updateVisible_DocumentWidget env clk d) = scrollY d"
  "state (updateVisible_DocumentWidget env clk d) = state d"
  "mod_state (updateVisible_DocumentWidget env clk d) = mod_state d"
  "sourceMime (updateVisible_DocumentWidget env clk d) = sourceMime d"
  "sourceTime (updateVisible_DocumentWidget env clk d) = sourceTime d"
  "pageMargin (updateVisible_DocumentWidget env clk d) = pageMargin d"
  "request (updateVisible_DocumentWidget env clk d) = request d"
  "posted (updateVisible_DocumentWidget env clk d) = posted d"
  by (simp_all add: updateVisible_DocumentWidget_def Let_def)

lemma invalidate_frame [simp]:
  "media (invalidate_DocumentWidget d) = media d"
  "doc (invalidate_DocumentWidget d) = doc d"
  "scrollY (invalidate_DocumentWidget d) = scrollY d"
  "state (invalidate_DocumentWidget d) = state d"
  "mod_state (invalidate_DocumentWidget d) = mod_state d"
  "sourceMime (invalidate_DocumentWidget d) = sourceMime d"
  "sourceTime (invalidate_DocumentWidget d) = sourceTime d"
  "pageMargin (invalidate_DocumentWidget d) = pageMargin d"
  "request (invalidate_DocumentWidget d) = request d"
  "posted (invalidate_DocumentWidget d) = posted d"
  "firstVisibleRun (invalidate_DocumentWidget d) = firstVisibleRun d"
  by (simp_all add: invalidate_DocumentWidget_def)

lemma view_frame_more [simp]:
  "redirectCount (invalidateLink_DocumentWidget d l) = redirectCount d"
  "certFlags (invalidateLink_DocumentWidget d l) = certFlags d"
  "sourceStatus (invalidateLink_DocumentWidget d l) = sourceStatus d"
  "redirectCount (addVisible_DocumentWidget d p) = redirectCount d"
  "certFlags (addVisible_DocumentWidget d p) = certFlags d"
  "sourceStatus (addVisible_DocumentWidget d p) = sourceStatus d"
  "redirectCount (invalidate_DocumentWidget d) = redirectCount d"
  "certFlags (invalidate_DocumentWidget d) = certFlags d"
  "sourceStatus (invalidate_DocumentWidget d) = sourceStatus d"
  by (simp_all add: invalidateLink_DocumentWidget_def addVisible_DocumentWidget_def Let_def
      invalidate_DocumentWidget_def)

lemma foldl_addVisible_frame_more [simp]:
  "redirectCount (foldl addVisible_DocumentWidget d ps) = redirectCount d"
  "certFlags (foldl addVisible_DocumentWidget d ps) = certFlags d"
  "sourceStatus (foldl addVisible_DocumentWidget d ps) = sourceStatus d"
  by (induction ps arbitrary: d; simp)+

lemma updateHover_frame_more [simp]:
  "redirectCount (updateHover_DocumentWidget env clk d m) = redirectCount d"
  "certFlags (updateHover_DocumentWidget env clk d m) = certFlags d"
  "sourceStatus (updateHover_DocumentWidget env clk d m) = sourceStatus d"
  by (simp_all add: updateHover_DocumentWidget_def Let_def split: option.splits)

lemma updateVisible_frame_more [simp]:
  "redirectCount (updateVisible_DocumentWidget env clk d) = redirectCount d"
  "certFlags (updateVisible_DocumentWidget env clk d) = certFlags d"
  "sourceStatus (updateVisible_DocumentWidget env clk d) = sourceStatus d"
  by (simp_all add: updateVisible_DocumentWidget_def Let_def)

lemma redoLayout_fields [simp]:
  "source (redoLayout_GmDocument x dc) = source dc"
  "format (redoLayout_GmDocument x dc) = format dc"
  "banner (redoLayout_GmDocument x dc) = banner dc"
  "docUrl (redoLayout_GmDocument x dc) = docUrl dc"
  "docWidth (redoLayout_GmDocument x dc) = docWidth dc"
  "mediaStore (redoLayout_GmDocument x dc) = mediaStore dc"
  by (simp_all add: redoLayout_GmDocument_def split: prod.splits)

lemma setSource_GmDocument_fields [simp]:
  "source (setSource_GmDocument x dc s w) = s"
  "format (setSource_GmDocument x dc s w) = format dc"
  "banner (setSource_GmDocument x dc s w) = banner dc"
  "docUrl (setSource_GmDocument x dc s w) = docUrl dc"
  "mediaStore (setSource_GmDocument x dc s w) = mediaStore dc"
  by (simp_all add: setSource_GmDocument_def)

lemma documentRunsInvalidated_frame [simp]:
  "media (documentRunsInvalidated_DocumentWidget d) = media d"
  "doc (documentRunsInvalidated_DocumentWidget d) = doc d"
  "scrollY (documentRunsInvalidated_DocumentWidget d) = scrollY d"
  "state (documentRunsInvalidated_DocumentWidget d) = state d"
  "mod_state (documentRunsInvalidated_DocumentWidget d) = mod_state d"
  "sourceMime (documentRunsInvalidated_DocumentWidget d) = sourceMime d"
  "sourceTime (documentRunsInvalidated_DocumentWidget d) = sourceTime d"
  "pageMargin (documentRunsInvalidated_DocumentWidget d) = pageMargin d"
  "request (documentRunsInvalidated_DocumentWidget d) = request d"
  "posted (documentRunsInvalidated_DocumentWidget d) = posted d"
  "redirectCount (documentRunsInvalidated_DocumentWidget d) = redirectCount d"
  "certFlags (documentRunsInvalidated_DocumentWidget d) = certFlags d"
  "sourceStatus (documentRunsInvalidated_DocumentWidget d) = sourceStatus d"
  by (simp_all add: documentRunsInvalidated_DocumentWidget_def)

lemma setSource_DocumentWidget_frame [simp]:
  "media (setSource_DocumentWidget x env clk d s) = media d"
  "scrollY (setSource_DocumentWidget x env clk d s) = scrollY d"
  "state (setSource_DocumentWidget x env clk d s) = state d"
  "mod_state (setSource_DocumentWidget x env clk d s) = mod_state d"
  "sourceMime (setSource_DocumentWidget x env clk d s) = sourceMime d"
  "sourceTime (setSource_DocumentWidget x env clk d s) = sourceTime d"
  "pageMargin (setSource_DocumentWidget x env clk d s) = pageMargin d"
  "request (setSource_DocumentWidget x env clk d s) = request d"
  "posted (setSource_DocumentWidget x env clk d s) = posted d"
  "redirectCount (setSource_DocumentWidget x env clk d s) = redirectCount d"
  "certFlags (setSource_DocumentWidget x env clk d s) = certFlags d"
  "sourceStatus (setSource_DocumentWidget x env clk d s) = sourceStatus d"
  by (simp_all add: setSource_DocumentWidget_def Let_def)

lemma setSource_DocumentWidget_doc [simp]:
  "source (doc (setSource_DocumentWidget x env clk d s)) = s"
  "format (doc (setSource_DocumentWidget x env clk d s)) = format (doc d)"
  "banner (doc (setSource_DocumentWidget x env clk d s)) = banner (doc d)"
  "docUrl (doc (setSource_DocumentWidget x env clk d s)) = url (mod_state d)"
  "mediaStore (doc (setSource_DocumentWidget x env clk d s)) = mediaStore (doc d)"
  by (simp_all add: setSource_DocumentWidget_def Let_def)

lemma resetWideRuns_frame [simp]:
  "media (resetWideRuns_DocumentWidget clk d) = media d"
  "doc (resetWideRuns_DocumentWidget clk d) = doc d"
  "scrollY (resetWideRuns_DocumentWidget clk d) = scrollY d"
  "state (resetWideRuns_DocumentWidget clk d) = state d"
  "mod_state (resetWideRuns_DocumentWidget clk d) = mod_state d"
  "sourceMime (resetWideRuns_DocumentWidget clk d) = sourceMime d"
  "sourceTime (resetWideRuns_DocumentWidget clk d) = sourceTime d"
  "pageMargin (resetWideRuns_DocumentWidget clk d) = pageMargin d"
  "request (resetWideRuns_DocumentWidget clk d) = request d"
  "posted (resetWideRuns_DocumentWidget clk d) = posted d"
  "redirectCount (resetWideRuns_DocumentWidget clk d) = redirectCount d"
  "certFlags (resetWideRuns_DocumentWidget clk d) = certFlags d"
  "sourceStatus (resetWideRuns_DocumentWidget clk d) = sourceStatus d"
  by (simp_all add: resetWideRuns_DocumentWidget_def)

lemma showErrorPage_effect [simp]:
  "state (showErrorPage_DocumentWidget x env clk d code mta) = ready_RequestState"
  "source (doc (showErrorPage_DocumentWidget x env clk d code mta)) = errorPageSource x code mta"
  "format (doc (showErrorPage_DocumentWidget x env clk d code mta)) = gemini_GmDocumentFormat"
  "mediaStore (doc (showErrorPage_DocumentWidget x env clk d code mta)) = mediaStore (doc d)"
  "posted (showErrorPage_DocumentWidget x env clk d code mta) = posted d"
  "request (showErrorPage_DocumentWidget x env clk d code mta) = request d"
  "media (showErrorPage_DocumentWidget x env clk d code mta) = media d"
  "mod_state (showErrorPage_DocumentWidget x env clk d code mta) = mod_state d"
  "redirectCount (showErrorPage_DocumentWidget x env clk d code mta) = redirectCount d"
  "sourceMime (showErrorPage_DocumentWidget x env clk d code mta) = sourceMime d"
  "sourceTime (showErrorPage_DocumentWidget x env clk d code mta) = sourceTime d"
  "scrollY (showErrorPage_DocumentWidget x env clk d code mta) = init_Anim 0 (ticks clk)"
  by (simp_all add: showErrorPage_DocumentWidget_def Let_def)

lemma updateTrust_frame [simp]:
  "state (updateTrust_DocumentWidget d r) = state d"
  "posted (updateTrust_DocumentWidget d r) = posted d"
  "request (updateTrust_DocumentWidget d r) = request d"
  "media (updateTrust_DocumentWidget d r) = media d"
  "mod_state (updateTrust_DocumentWidget d r) = mod_state d"
  "redirectCount (updateTrust_DocumentWidget d r) = redirectCount d"
  "source (doc (updateTrust_DocumentWidget d r)) = source (doc d)"
  "sourceMime (updateTrust_DocumentWidget d r) = sourceMime d"
  "scrollY (updateTrust_DocumentWidget d r) = scrollY d"
  by (simp_all add: updateTrust_DocumentWidget_def Let_def)

section \<open>Automatic reload\<close>

text \<open>
  C4. The automatic reload compares the seconds elapsed since the source was received with
  \<open>seconds_ReloadInterval_\<close>, whose table holds the intervals in minutes. With the interval
  labelled \<open>1 minute\<close> and a source received one second ago, the reload is posted; the
  table gives 1 for that interval, 5, 15, 60, 240, 720 and 1440 for the others.
\<close>

theorem autoreload_minute_after_one_second:
  "posted (handleCommand_document_autoreload \<lparr> tv_sec = 1001, tv_nsec = 0 \<rparr>
            ((init_DocumentWidget \<lparr> ticks = 0, frameTime = 0 \<rparr>)
               \<lparr> mod_state := \<lparr> history = [], url = ''gemini://example/'', reloadInterval = 1 \<rparr>,
                 sourceTime := \<lparr> tv_sec = 1000, tv_nsec = 0 \<rparr> \<rparr>))
     = [document_reload]
   \<and> label_ReloadInterval 1 = Some ''1 minute''
   \<and> map seconds_ReloadInterval [1, 2, 3, 4, 5, 6, 7] = [1, 5, 15, 60, 240, 720, 1440]"
  by (simp add: handleCommand_document_autoreload_def init_DocumentWidget_def postCommand_def
      isValid_Time_def elapsedSeconds_Time_def seconds_Time_def seconds_ReloadInterval_def
      max_ReloadInterval_def times_def label_ReloadInterval_def labels_def)

section \<open>Media requests: one per link\<close>

lemma removeMediaRequest_list_subset:
  "set (map mr_linkId (removeMediaRequest_list ms lnk)) \<subseteq> set (map mr_linkId ms)"
  by (induction ms) auto

lemma removeMediaRequest_list_distinct:
  "distinct (map mr_linkId ms) \<Longrightarrow> distinct (map mr_linkId (removeMediaRequest_list ms lnk))"
proof (induction ms)
  case Nil
  then show ?case by simp
next
  case (Cons m ms)
  have "mr_linkId m \<notin> set (map mr_linkId (removeMediaRequest_list ms lnk))"
    using Cons.prems removeMediaRequest_list_subset [of ms lnk] by auto
  with Cons show ?case by simp
qed

lemma find_None_linkId:
  "find (\<lambda>m. mr_linkId m = lnk) ms = None \<longleftrightarrow> lnk \<notin> set (map mr_linkId ms)"
  by (induction ms) auto

lemma media_requestMedia:
  "media (fst (requestMedia_DocumentWidget x d lnk f)) =
     (if findMediaRequest_DocumentWidget d lnk = None
      then media d @ [new_MediaRequest lnk
                        (absoluteUrl_String x (url (mod_state d)) (linkUrl_GmDocument x (doc d) lnk)) f]
      else media d)"
  by (simp add: requestMedia_DocumentWidget_def Let_def)

lemma media_handleMediaCommand:
  "media (fst (handleMediaCommand_DocumentWidget x env clk d c req)) = media d \<or>
   media (fst (handleMediaCommand_DocumentWidget x env clk d c req)) =
     removeMediaRequest_list (media d) (mr_linkId req)"
  by (cases c)
     (simp_all add: handleMediaCommand_DocumentWidget_def Let_def
        removeMediaRequest_DocumentWidget_def postCommand_def)

lemma map_linkId_progress:
  "map mr_linkId (map (\<lambda>m. if mr_linkId m = lnk then m\<lparr> mr_req := rq \<rparr> else m) ms) =
     map mr_linkId ms"
  by (induction ms) simp_all

lemma mediaStep_distinct:
  assumes "distinct (map mr_linkId (media d))"
  shows "distinct (map mr_linkId (media (mediaStep x env clk d op)))"
proof (cases op)
  case (op_request lnk f)
  show ?thesis
    using assms unfolding op_request
    by (simp add: media_requestMedia findMediaRequest_DocumentWidget_def find_None_linkId
        new_MediaRequest_def)
next
  case (op_cancel lnk)
  then show ?thesis
    using assms by (simp add: removeMediaRequest_DocumentWidget_def removeMediaRequest_list_distinct)
next
  case (op_progress lnk rq)
  show ?thesis
    using assms unfolding op_progress by (simp add: map_linkId_progress del: map_map)
next
  case (op_command c req)
  show ?thesis
    using assms media_handleMediaCommand [of x env clk d c req] unfolding op_command
    by (auto simp: removeMediaRequest_list_distinct)
next
  case op_fetch
  then show ?thesis by (simp add: fetch_DocumentWidget_def postCommand_def Let_def)
qed

lemma mediaSteps_distinct:
  "distinct (map mr_linkId (media d)) \<Longrightarrow>
   distinct (map mr_linkId (media (foldl (mediaStep x env clk) d ops)))"
  by (induction ops arbitrary: d) (simp_all add: mediaStep_distinct)

lemma distinct_count_le_1:
  "distinct (map mr_linkId ms) \<Longrightarrow> length (filter (\<lambda>m. mr_linkId m = lnk) ms) \<le> 1"
proof (induction ms)
  case Nil
  then show ?case by simp
next
  case (Cons m ms)
  show ?case
  proof (cases "mr_linkId m = lnk")
    case True
    then have "lnk \<notin> set (map mr_linkId ms)" using Cons.prems by simp
    then have "filter (\<lambda>m. mr_linkId m = lnk) ms = []"
      by (auto simp: filter_empty_conv)
    with True show ?thesis by simp
  next
    case False
    with Cons show ?thesis by simp
  qed
qed

text \<open>
  C7. Starting from a new widget, after any sequence of media operations every link has at
  most one media request. Requesting media for a link that has a request changes nothing
  and returns false; for a link that has none it appends exactly one request for that link
  and returns true.
\<close>

theorem media_request_unique:
  "mediaRequestCount (foldl (mediaStep x env clk) (init_DocumentWidget clk0) ops) lnk \<le> 1
   \<and> (findMediaRequest_DocumentWidget d lnk \<noteq> None \<longrightarrow>
        requestMedia_DocumentWidget x d lnk f = (d, False))
   \<and> (findMediaRequest_DocumentWidget d lnk = None \<longrightarrow>
        snd (requestMedia_DocumentWidget x d lnk f) \<and>
        (\<exists>m. media (fst (requestMedia_DocumentWidget x d lnk f)) = media d @ [m] \<and>
             mr_linkId m = lnk) \<and>
        mediaRequestCount d lnk = 0 \<and>
        mediaRequestCount (fst (requestMedia_DocumentWidget x d lnk f)) lnk = 1)"
proof -
  have "distinct (map mr_linkId (media (init_DocumentWidget clk0)))"
    by (simp add: init_DocumentWidget_def)
  then have "distinct (map mr_linkId
               (media (foldl (mediaStep x env clk) (init_DocumentWidget clk0) ops)))"
    by (rule mediaSteps_distinct)
  then have 1: "mediaRequestCount (foldl (mediaStep x env clk) (init_DocumentWidget clk0) ops) lnk
                \<le> 1"
    unfolding mediaRequestCount_def by (rule distinct_count_le_1)
  have 2: "findMediaRequest_DocumentWidget d lnk \<noteq> None \<longrightarrow>
             requestMedia_DocumentWidget x d lnk f = (d, False)"
    by (simp add: requestMedia_DocumentWidget_def)
  have 3: "findMediaRequest_DocumentWidget d lnk = None \<longrightarrow>
        snd (requestMedia_DocumentWidget x d lnk f) \<and>
        (\<exists>m. media (fst (requestMedia_DocumentWidget x d lnk f)) = media d @ [m] \<and>
             mr_linkId m = lnk) \<and>
        mediaRequestCount d lnk = 0 \<and>
        mediaRequestCount (fst (requestMedia_DocumentWidget x d lnk f)) lnk = 1"
  proof
    assume none: "findMediaRequest_DocumentWidget d lnk = None"
    then have notin: "lnk \<notin> set (map mr_linkId (media d))"
      by (simp add: findMediaRequest_DocumentWidget_def find_None_linkId)
    then have zero: "filter (\<lambda>m. mr_linkId m = lnk) (media d) = []"
      by (auto simp: filter_empty_conv)
    show "snd (requestMedia_DocumentWidget x d lnk f) \<and>
        (\<exists>m. media (fst (requestMedia_DocumentWidget x d lnk f)) = media d @ [m] \<and>
             mr_linkId m = lnk) \<and>
        mediaRequestCount d lnk = 0 \<and>
        mediaRequestCount (fst (requestMedia_DocumentWidget x d lnk f)) lnk = 1"
      using none zero
      by (simp add: requestMedia_DocumentWidget_def Let_def mediaRequestCount_def
          new_MediaRequest_def)
  qed
  from 1 2 3 show ?thesis by blast
qed

section \<open>The invalidation set\<close>

lemma insert_PtrSet_set: "set (insert_PtrSet s p) = insert p (set s)"
  by (auto simp: insert_PtrSet_def set_insort_key)

lemma insert_PtrSet_idem: "insert_PtrSet (insert_PtrSet s p) p = insert_PtrSet s p"
  by (simp add: insert_PtrSet_def set_insort_key)

lemma insert_PtrSet_distinct: "distinct s \<Longrightarrow> distinct (insert_PtrSet s p)"
  by (simp add: insert_PtrSet_def distinct_insort)

lemma insert_PtrSet_sorted: "sorted s \<Longrightarrow> sorted (insert_PtrSet s p)"
  by (simp add: insert_PtrSet_def sorted_insort)

lemma foldl_insert_set:
  "set (foldl (\<lambda>s p. if P p then insert_PtrSet s p else s) s0 ps) =
     set s0 \<union> {p \<in> set ps. P p}"
  by (induction ps arbitrary: s0) (auto simp: insert_PtrSet_set)

lemma foldl_insert_distinct:
  "distinct s0 \<Longrightarrow> distinct (foldl (\<lambda>s p. if P p then insert_PtrSet s p else s) s0 ps)"
  by (induction ps arbitrary: s0) (simp_all add: insert_PtrSet_distinct)

lemma foldl_insert_sorted:
  "sorted s0 \<Longrightarrow> sorted (foldl (\<lambda>s p. if P p then insert_PtrSet s p else s) s0 ps)"
  by (induction ps arbitrary: s0) (simp_all add: insert_PtrSet_sorted)

lemma foldl_insert_absorb:
  "{p \<in> set ps. P p} \<subseteq> set s0 \<Longrightarrow>
   foldl (\<lambda>s p. if P p then insert_PtrSet s p else s) s0 ps = s0"
  by (induction ps arbitrary: s0) (auto simp: insert_PtrSet_def)

text \<open>
  C9. Invalidating the runs of a link twice leaves the widget as invalidating them once
  does, and so does inserting one run twice. The invalidation set stays a sorted array
  without duplicates, and after the call it holds what it held before together with the
  visible runs of the link.
\<close>

theorem invalidateLink_idempotent:
  "invalidateLink_DocumentWidget (invalidateLink_DocumentWidget d lnk) lnk =
     invalidateLink_DocumentWidget d lnk
   \<and> insert_PtrSet (insert_PtrSet (invalidRuns d) p) p = insert_PtrSet (invalidRuns d) p
   \<and> (distinct (invalidRuns d) \<longrightarrow> distinct (invalidRuns (invalidateLink_DocumentWidget d lnk)))
   \<and> (sorted (invalidRuns d) \<longrightarrow> sorted (invalidRuns (invalidateLink_DocumentWidget d lnk)))
   \<and> set (invalidRuns (invalidateLink_DocumentWidget d lnk)) =
       set (invalidRuns d) \<union> {p \<in> set (visibleLinks d). linkId (runAt d p) = lnk}"
proof -
  let ?f = "\<lambda>s p. if linkId (runAt d p) = lnk then insert_PtrSet s p else s"
  let ?s1 = "foldl ?f (invalidRuns d) (visibleLinks d)"
  have run: "runAt (d\<lparr> invalidRuns := ?s1 \<rparr>) = runAt d"
    by (rule ext) (simp add: runAt_def)
  have "{p \<in> set (visibleLinks d). linkId (runAt d p) = lnk} \<subseteq> set ?s1"
    by (simp add: foldl_insert_set)
  then have "foldl ?f ?s1 (visibleLinks d) = ?s1"
    by (rule foldl_insert_absorb)
  then have idem: "invalidateLink_DocumentWidget (invalidateLink_DocumentWidget d lnk) lnk =
     invalidateLink_DocumentWidget d lnk"
    by (simp add: invalidateLink_DocumentWidget_def run)
  show ?thesis
    using idem
    by (simp add: insert_PtrSet_idem)
       (simp add: invalidateLink_DocumentWidget_def foldl_insert_set foldl_insert_distinct
          foldl_insert_sorted)
qed

section \<open>Updates after the page is ready\<close>

text \<open>
  C10. When the request state is ready, \<open>updateDocument_DocumentWidget_\<close> returns the widget
  as it is: the document and its source, the source MIME type and the source time stay.
\<close>

theorem updateDocument_ready_noop:
  assumes "state d = ready_RequestState"
  shows "updateDocument_DocumentWidget x env clk d response isInitialUpdate = d"
  using assms by (simp add: updateDocument_DocumentWidget_def)

section \<open>Examples for the unconditional parts\<close>

theorem autoreload_minute_after_one_second_witness:
  "posted (handleCommand_document_autoreload \<lparr> tv_sec = 1001, tv_nsec = 0 \<rparr>
            ((init_DocumentWidget \<lparr> ticks = 0, frameTime = 0 \<rparr>)
               \<lparr> mod_state := \<lparr> history = [], url = ''gemini://example/'', reloadInterval = 1 \<rparr>,
                 sourceTime := \<lparr> tv_sec = 1000, tv_nsec = 0 \<rparr> \<rparr>))
     \<noteq> []
   \<and> seconds_ReloadInterval 1 \<noteq> 60"
  using autoreload_minute_after_one_second by simp

theorem media_request_unique_witness:
  "mediaRequestCount
     (foldl (mediaStep sampleExt sampleEnv sampleClock) (init_DocumentWidget sampleClock)
        [op_request 3 True, op_request 3 False, op_cancel 3, op_request 3 True]) 3 \<le> 1
   \<and> findMediaRequest_DocumentWidget (init_DocumentWidget sampleClock) 3 = None
   \<and> snd (requestMedia_DocumentWidget sampleExt (init_DocumentWidget sampleClock) 3 True)
   \<and> mediaRequestCount
       (fst (requestMedia_DocumentWidget sampleExt (init_DocumentWidget sampleClock) 3 True)) 3 = 1"
  using media_request_unique [of sampleExt sampleEnv sampleClock sampleClock
      "[op_request 3 True, op_request 3 False, op_cancel 3, op_request 3 True]" 3
      "init_DocumentWidget sampleClock" True]
  by (simp add: findMediaRequest_DocumentWidget_def init_DocumentWidget_def)

theorem invalidateLink_idempotent_witness:
  "distinct (invalidRuns (init_DocumentWidget sampleClock))
   \<and> sorted (invalidRuns (init_DocumentWidget sampleClock))
   \<and> invalidRuns (invalidateLink_DocumentWidget
         ((init_DocumentWidget sampleClock)
            \<lparr> doc := new_GmDocument\<lparr> layout := [(sampleRun 0 20 100)\<lparr> linkId := 7 \<rparr>] \<rparr>,
              visibleLinks := [0] \<rparr>) 7) = [0]
   \<and> invalidRuns (invalidateLink_DocumentWidget
         (invalidateLink_DocumentWidget
            ((init_DocumentWidget sampleClock)
               \<lparr> doc := new_GmDocument\<lparr> layout := [(sampleRun 0 20 100)\<lparr> linkId := 7 \<rparr>] \<rparr>,
                 visibleLinks := [0] \<rparr>) 7) 7) = [0]"
  using invalidateLink_idempotent
    [of "(init_DocumentWidget sampleClock)
            \<lparr> doc := new_GmDocument\<lparr> layout := [(sampleRun 0 20 100)\<lparr> linkId := 7 \<rparr>] \<rparr>,
              visibleLinks := [0] \<rparr>" 7 0]
  by (simp add: init_DocumentWidget_def invalidateLink_DocumentWidget_def runAt_def
      new_GmDocument_def sampleRun_def insert_PtrSet_def)

theorem updateDocument_ready_noop_witness:
  "state ((init_DocumentWidget sampleClock)\<lparr> state := ready_RequestState \<rparr>) = ready_RequestState
   \<and> updateDocument_DocumentWidget sampleExt sampleEnv sampleClock
       ((init_DocumentWidget sampleClock)\<lparr> state := ready_RequestState \<rparr>)
       (sampleResponse 20 ''text/gemini'' ''# Hi'') False =
     (init_DocumentWidget sampleClock)\<lparr> state := ready_RequestState \<rparr>"
  using updateDocument_ready_noop
    [of "(init_DocumentWidget sampleClock)\<lparr> state := ready_RequestState \<rparr>"
        sampleExt sampleEnv sampleClock "sampleResponse 20 ''text/gemini'' ''# Hi''" False]
  by simp

section \<open>Horizontal scrolling of wide blocks\<close>

lemma iClamp_range: "low \<le> high \<Longrightarrow> low \<le> iClamp i low high \<and> iClamp i low high \<le> high"
  by (simp add: iClamp_def)

lemma resize_Array_length: "length (resize_Array a n) = n"
  by (simp add: resize_Array_def)

text \<open>
  C5. A scroll of a wide block by any nonzero delta, on the block under the pointer, has a
  result, and the offset stored for the block afterwards lies between 0 and the maximum
  offset of the block (its greatest run width minus the document width plus the page
  margin), whenever that maximum is not negative. The sum of the old offset and the delta
  is taken in 32 bits, so the bound also holds for deltas that overflow it.
\<close>

lemma scrollWideBlock_offsets:
  assumes "delta \<noteq> 0"
    and "hitWideRun env clk d mousePos = Some p"
    and "preId (runAt d p) \<noteq> 0"
  shows "\<exists>d'. scrollWideBlock_DocumentWidget x env clk d mousePos delta duration = Some d'
           \<and> wideRunOffsets d' =
               (if length (wideRunOffsets d) \<le> preId (runAt d p)
                then resize_Array (wideRunOffsets d) (preId (runAt d p) + 1)
                else wideRunOffsets d)
               [preId (runAt d p) - 1 :=
                  iClamp (wrap32
                     ((if length (wideRunOffsets d) \<le> preId (runAt d p)
                       then resize_Array (wideRunOffsets d) (preId (runAt d p) + 1)
                       else wideRunOffsets d) ! (preId (runAt d p) - 1) + delta))
                    0 (maxOffset_wideBlock x env d p)]"
  using assms by (simp add: scrollWideBlock_DocumentWidget_def Let_def)

theorem scrollWideBlock_offset_in_range:
  assumes "delta \<noteq> 0"
    and "hitWideRun env clk d mousePos = Some p"
    and "preId (runAt d p) \<noteq> 0"
    and "0 \<le> maxOffset_wideBlock x env d p"
  shows "\<exists>d'. scrollWideBlock_DocumentWidget x env clk d mousePos delta duration = Some d'
           \<and> preId (runAt d p) - 1 < length (wideRunOffsets d')
           \<and> 0 \<le> wideRunOffsets d' ! (preId (runAt d p) - 1)
           \<and> wideRunOffsets d' ! (preId (runAt d p) - 1) \<le> maxOffset_wideBlock x env d p"
proof -
  define k where "k = preId (runAt d p)"
  define offsets where "offsets = (if length (wideRunOffsets d) \<le> k
                            then resize_Array (wideRunOffsets d) (k + 1)
                            else wideRunOffsets d)"
  define new where "new = iClamp (wrap32 (offsets ! (k - 1) + delta)) 0
                            (maxOffset_wideBlock x env d p)"
  have k: "k \<noteq> 0" using assms(3) by (simp add: k_def)
  have len: "k - 1 < length offsets"
    using k by (auto simp: offsets_def resize_Array_length)
  have rng: "0 \<le> new \<and> new \<le> maxOffset_wideBlock x env d p"
    unfolding new_def using assms(4) by (rule iClamp_range)
  obtain d' where res: "scrollWideBlock_DocumentWidget x env clk d mousePos delta duration = Some d'"
    and offs: "wideRunOffsets d' = offsets[k - 1 := new]"
    using scrollWideBlock_offsets [OF assms(1-3), of x duration]
    unfolding new_def offsets_def k_def by blast
  have "wideRunOffsets d' ! (k - 1) = new"
    using len by (simp add: offs)
  with res len rng show ?thesis
    unfolding k_def [symmetric] by (simp add: offs)
qed

theorem scrollWideBlock_offset_in_range_witness:
  "hitWideRun sampleEnv sampleClock
     ((init_DocumentWidget sampleClock)
        \<lparr> doc := new_GmDocument
                   \<lparr> layout := [(sampleRun 0 20 900)\<lparr> preId := 1, runFlags := {wide_GmRunFlag} \<rparr>] \<rparr>,
          visibleWideRuns := [0] \<rparr>) (10, 30) = Some 0
   \<and> maxOffset_wideBlock sampleExt sampleEnv
       ((init_DocumentWidget sampleClock)
          \<lparr> doc := new_GmDocument
                     \<lparr> layout := [(sampleRun 0 20 900)\<lparr> preId := 1, runFlags := {wide_GmRunFlag} \<rparr>] \<rparr>,
            visibleWideRuns := [0] \<rparr>) 0 = 420
   \<and> map_option wideRunOffsets
       (scrollWideBlock_DocumentWidget sampleExt sampleEnv sampleClock
          ((init_DocumentWidget sampleClock)
             \<lparr> doc := new_GmDocument
                        \<lparr> layout := [(sampleRun 0 20 900)\<lparr> preId := 1, runFlags := {wide_GmRunFlag} \<rparr>] \<rparr>,
               visibleWideRuns := [0] \<rparr>) (10, 30) 2147483647 0) = Some [420, 0]"
proof -
  let ?d = "(init_DocumentWidget sampleClock)
        \<lparr> doc := new_GmDocument
                   \<lparr> layout := [(sampleRun 0 20 900)\<lparr> preId := 1, runFlags := {wide_GmRunFlag} \<rparr>] \<rparr>,
          visibleWideRuns := [0] \<rparr>"
  have val: "value_Anim (scrollY ?d) (frameTime sampleClock) = 0"
    by (simp add: init_DocumentWidget_def value_Anim_def valueAt_Anim_def init_Anim_def
        sampleClock_def)
  have hit: "hitWideRun sampleEnv sampleClock ?d (10, 30) = Some 0"
    unfolding hitWideRun_def documentPos_DocumentWidget_def Let_def val
    by (simp add: documentBounds_DocumentWidget_def init_DocumentWidget_def sampleEnv_def
        new_GmDocument_def runAt_def sampleRun_def top_Rect_def bottom_Rect_def height_Rect_def
        mid_Rect_x_def cdiv_def toInt_def Let_def)
  have pre: "preId (runAt ?d 0) \<noteq> 0"
    by (simp add: runAt_def init_DocumentWidget_def new_GmDocument_def sampleRun_def)
  have mx: "maxOffset_wideBlock sampleExt sampleEnv ?d 0 = 420"
    by (simp add: maxOffset_wideBlock_def sampleExt_def sampleEnv_def runAt_def
        init_DocumentWidget_def new_GmDocument_def sampleRun_def width_Rect_def iMax_def Let_def)
  have lo: "(0::int) \<le> maxOffset_wideBlock sampleExt sampleEnv ?d 0"
    by (simp only: mx)
  have nz: "(2147483647::int) \<noteq> 0" by simp
  obtain d' where r: "scrollWideBlock_DocumentWidget sampleExt sampleEnv sampleClock ?d (10, 30)
                        2147483647 0 = Some d'"
    using scrollWideBlock_offset_in_range [OF nz hit pre lo, of 0] by blast
  have "wideRunOffsets d' = [420, 0]"
    using r hit pre mx
    by (simp add: scrollWideBlock_DocumentWidget_def Let_def runAt_def init_DocumentWidget_def
        new_GmDocument_def sampleRun_def resize_Array_def iClamp_def wrap32_def
        split: if_splits)
       (auto simp: numeral_2_eq_2)
  with r hit mx show ?thesis by simp
qed

section \<open>Redirects\<close>

lemma category_redirect_not_none:
  "category_GmStatusCode c = categoryRedirect_GmStatusCode \<Longrightarrow> c \<noteq> none_GmStatusCode"
  by (cases c) simp_all

lemma checkResponse_redirect_step:
  assumes rq: "request d = Some rq" and st: "state d = fetching_RequestState"
    and cat: "category_GmStatusCode (status_GmRequest rq) = categoryRedirect_GmStatusCode"
  shows "checkResponse_DocumentWidget x env clk d =
     (let d2 = (updateTrust_DocumentWidget
                  (d\<lparr> state := receivedPartialResponse_RequestState \<rparr>) (resp rq))
               \<lparr> sourceStatus := status_GmRequest rq \<rparr>;
          dstUrl = absoluteUrl_String x (url (mod_state d)) (meta (resp rq))
      in if meta (resp rq) = [] then
           showErrorPage_DocumentWidget x env clk d2 invalidRedirect_GmStatusCode None
         else if redirectCount d \<ge> 5 then
           (showErrorPage_DocumentWidget x env clk d2 tooManyRedirects_GmStatusCode (Some dstUrl))
             \<lparr> request := None \<rparr>
         else if equalCase (urlScheme_String x dstUrl) (urlScheme_String x (url (mod_state d))) then
           (postCommand d2 (open_redirect (redirectCount d + 1) dstUrl))\<lparr> request := None \<rparr>
         else
           (showErrorPage_DocumentWidget x env clk d2 schemeChangeRedirect_GmStatusCode
              (Some dstUrl))\<lparr> request := None \<rparr>)"
  using category_redirect_not_none [OF cat]
  by (simp add: checkResponse_DocumentWidget_def rq st cat Let_def)

lemma checkResponse_redirect_effects:
  fixes x :: Ext and env :: UiEnv and clk :: Clock
  assumes rq: "request d = Some rq" and st: "state d = fetching_RequestState"
    and cat: "category_GmStatusCode (status_GmRequest rq) = categoryRedirect_GmStatusCode"
  defines "d' \<equiv> checkResponse_DocumentWidget x env clk d"
    and "dst \<equiv> absoluteUrl_String x (url (mod_state d)) (meta (resp rq))"
  shows empty_target: "meta (resp rq) = [] \<Longrightarrow>
           source (doc d') = errorPageSource x invalidRedirect_GmStatusCode None \<and>
           state d' = ready_RequestState \<and> posted d' = posted d"
    and too_many: "meta (resp rq) \<noteq> [] \<Longrightarrow> redirectCount d \<ge> 5 \<Longrightarrow>
           source (doc d') = errorPageSource x tooManyRedirects_GmStatusCode (Some dst) \<and>
           state d' = ready_RequestState \<and> posted d' = posted d \<and> request d' = None"
    and follow: "meta (resp rq) \<noteq> [] \<Longrightarrow> redirectCount d < 5 \<Longrightarrow>
           equalCase (urlScheme_String x dst) (urlScheme_String x (url (mod_state d))) \<Longrightarrow>
           posted d' = posted d @ [open_redirect (redirectCount d + 1) dst] \<and>
           source (doc d') = source (doc d) \<and>
           state d' = receivedPartialResponse_RequestState \<and> request d' = None"
    and scheme_change: "meta (resp rq) \<noteq> [] \<Longrightarrow> redirectCount d < 5 \<Longrightarrow>
           \<not> equalCase (urlScheme_String x dst) (urlScheme_String x (url (mod_state d))) \<Longrightarrow>
           source (doc d') = errorPageSource x schemeChangeRedirect_GmStatusCode (Some dst) \<and>
           state d' = ready_RequestState \<and> posted d' = posted d \<and> request d' = None"
  unfolding d'_def dst_def checkResponse_redirect_step [OF rq st cat]
  by (simp_all add: Let_def postCommand_def)

lemma redirectTo_fields [simp]:
  "meta (resp (redirectTo t)) = t"
  "category_GmStatusCode (status_GmRequest (redirectTo t)) = categoryRedirect_GmStatusCode"
  by (simp_all add: redirectTo_def status_GmRequest_def)

lemma fetch_effect [simp]:
  "state (fetch_DocumentWidget d) = fetching_RequestState"
  "redirectCount (fetch_DocumentWidget d) = redirectCount d"
  "mod_state (fetch_DocumentWidget d) = mod_state d"
  "posted (fetch_DocumentWidget d) = posted d @ [document_request_started (url (mod_state d))]"
  "media (fetch_DocumentWidget d) = []"
  "doc (fetch_DocumentWidget d) = doc d"
  by (simp_all add: fetch_DocumentWidget_def postCommand_def Let_def)

lemma openRedirect_effect [simp]:
  "state (openRedirect x d n u) = fetching_RequestState"
  "redirectCount (openRedirect x d n u) = n"
  "openCount (openRedirect x d n u) = openCount d"
  "url (mod_state (openRedirect x d n u)) = urlFragmentStripped_String x u"
  "doc (openRedirect x d n u) = doc d"
  by (simp_all add: openRedirect_def setUrl_DocumentWidget_def
      setRedirectCount_DocumentWidget_def openCount_def)

lemma redirectRound_follow:
  assumes st: "state d = fetching_RequestState"
    and lt: "redirectCount d < 5"
    and t: "target \<noteq> []"
    and same: "equalCase (urlScheme_String x (absoluteUrl_String x (url (mod_state d)) target))
                 (urlScheme_String x (url (mod_state d)))"
  shows "state (redirectRound x env clk target d) = fetching_RequestState
       \<and> redirectCount (redirectRound x env clk target d) = redirectCount d + 1
       \<and> openCount (redirectRound x env clk target d) = openCount d + 1
       \<and> url (mod_state (redirectRound x env clk target d)) =
           urlFragmentStripped_String x (absoluteUrl_String x (url (mod_state d)) target)"
proof -
  let ?d0 = "d\<lparr> request := Some (redirectTo target) \<rparr>"
  let ?d1 = "checkResponse_DocumentWidget x env clk ?d0"
  let ?dst = "absoluteUrl_String x (url (mod_state d)) target"
  have "posted ?d1 = posted ?d0 @ [open_redirect (redirectCount ?d0 + 1) ?dst]"
    using checkResponse_redirect_effects(3) [of ?d0 "redirectTo target" x env clk] st lt t same
    by simp
  then have p: "posted ?d1 = posted d @ [open_redirect (redirectCount d + 1) ?dst]"
    by simp
  then have r: "redirectRound x env clk target d = openRedirect x ?d1 (redirectCount d + 1) ?dst"
    by (simp add: redirectRound_def Let_def)
  have "openCount ?d1 = openCount d + 1"
    by (simp add: openCount_def p)
  then show ?thesis by (simp add: r)
qed

lemma redirectRound_stop:
  assumes st: "state d = fetching_RequestState"
    and ge: "redirectCount d \<ge> 5"
    and t: "target \<noteq> []"
  shows "state (redirectRound x env clk target d) = ready_RequestState
       \<and> source (doc (redirectRound x env clk target d)) =
           errorPageSource x tooManyRedirects_GmStatusCode
             (Some (absoluteUrl_String x (url (mod_state d)) target))
       \<and> openCount (redirectRound x env clk target d) = openCount d"
proof -
  let ?d0 = "d\<lparr> request := Some (redirectTo target) \<rparr>"
  let ?d1 = "checkResponse_DocumentWidget x env clk ?d0"
  have e: "source (doc ?d1) = errorPageSource x tooManyRedirects_GmStatusCode
             (Some (absoluteUrl_String x (url (mod_state ?d0)) (meta (resp (redirectTo target)))))
           \<and> state ?d1 = ready_RequestState \<and> posted ?d1 = posted ?d0 \<and> request ?d1 = None"
    using checkResponse_redirect_effects(2) [of ?d0 "redirectTo target" x env clk] st ge t
    by simp
  then have r: "redirectRound x env clk target d = ?d1"
    by (simp add: redirectRound_def Let_def)
  show ?thesis using e by (simp add: r openCount_def)
qed

lemma redirectChain_append:
  "redirectChain x env clk (ts @ us) d = redirectChain x env clk us (redirectChain x env clk ts d)"
  by (induction ts arbitrary: d) simp_all

lemma sameSchemeChain_take:
  "sameSchemeChain x env clk ts d \<Longrightarrow> sameSchemeChain x env clk (take k ts) d"
proof (induction ts arbitrary: d k)
  case Nil
  then show ?case by simp
next
  case (Cons t ts)
  then show ?case by (cases k) simp_all
qed

lemma redirect_chain_follow:
  assumes "state d = fetching_RequestState"
    and "sameSchemeChain x env clk ts d"
    and "redirectCount d + int (length ts) \<le> 5"
  shows "state (redirectChain x env clk ts d) = fetching_RequestState
       \<and> redirectCount (redirectChain x env clk ts d) = redirectCount d + int (length ts)
       \<and> openCount (redirectChain x env clk ts d) = openCount d + length ts"
  using assms
proof (induction ts arbitrary: d)
  case Nil
  then show ?case by simp
next
  case (Cons t ts)
  let ?d1 = "redirectRound x env clk t d"
  have lt: "redirectCount d < 5" using Cons.prems(3) by simp
  have t: "t \<noteq> []"
    and same: "equalCase (urlScheme_String x (absoluteUrl_String x (url (mod_state d)) t))
                 (urlScheme_String x (url (mod_state d)))"
    and rest: "sameSchemeChain x env clk ts ?d1"
    using Cons.prems(2) by simp_all
  have one: "state ?d1 = fetching_RequestState \<and> redirectCount ?d1 = redirectCount d + 1
             \<and> openCount ?d1 = openCount d + 1"
    using redirectRound_follow [OF Cons.prems(1) lt t same, of env clk] by simp
  have "state (redirectChain x env clk ts ?d1) = fetching_RequestState
       \<and> redirectCount (redirectChain x env clk ts ?d1) = redirectCount ?d1 + int (length ts)
       \<and> openCount (redirectChain x env clk ts ?d1) = openCount ?d1 + length ts"
    using one rest Cons.prems(3) by (intro Cons.IH) simp_all
  then show ?case using one by simp
qed

lemma redirect_chain_sixth:
  assumes st: "state d = fetching_RequestState"
    and zero: "redirectCount d = 0"
    and five: "length ts = 5"
    and same: "sameSchemeChain x env clk ts d"
    and t: "t6 \<noteq> []"
  shows "state (redirectChain x env clk (ts @ [t6]) d) = ready_RequestState
       \<and> source (doc (redirectChain x env clk (ts @ [t6]) d)) =
           errorPageSource x tooManyRedirects_GmStatusCode
             (Some (absoluteUrl_String x (url (mod_state (redirectChain x env clk ts d))) t6))
       \<and> openCount (redirectChain x env clk (ts @ [t6]) d) = openCount d + 5"
proof -
  let ?d5 = "redirectChain x env clk ts d"
  have f: "state ?d5 = fetching_RequestState \<and> redirectCount ?d5 = 5 \<and>
           openCount ?d5 = openCount d + 5"
    using redirect_chain_follow [OF st same, of] zero five by simp
  have six: "redirectChain x env clk (ts @ [t6]) d = redirectRound x env clk t6 ?d5"
    by (simp add: redirectChain_append)
  have "state (redirectRound x env clk t6 ?d5) = ready_RequestState
       \<and> source (doc (redirectRound x env clk t6 ?d5)) =
           errorPageSource x tooManyRedirects_GmStatusCode
             (Some (absoluteUrl_String x (url (mod_state ?d5)) t6))
       \<and> openCount (redirectRound x env clk t6 ?d5) = openCount ?d5"
    using f t by (intro redirectRound_stop) simp_all
  then show ?thesis using f unfolding six by simp
qed

text \<open>
  C1, as the widget does it. When the first status line of a fetch is a redirect:
  an empty target gives the invalid-redirect page; a non-empty target with the redirect
  count at 5 or more gives the too-many-redirects page, whatever its scheme; below 5, a
  target whose scheme equals the scheme of the current URL (letter case ignored) posts the
  \<open>open\<close> command with the count incremented and shows no page, and a target with another
  scheme gives the scheme-change page. A target with another scheme never posts a command.
  In a chain of redirects that starts with the count 0, whose first five targets each have
  the scheme of the URL the widget is at when they arrive, each of the first five is
  followed and the sixth, whatever its scheme, gives the too-many-redirects page.
\<close>

theorem redirect_policy:
  fixes x :: Ext and env :: UiEnv and clk :: Clock
  assumes rq: "request d = Some rq" and st: "state d = fetching_RequestState"
    and cat: "category_GmStatusCode (status_GmRequest rq) = categoryRedirect_GmStatusCode"
  defines "d' \<equiv> checkResponse_DocumentWidget x env clk d"
    and "target \<equiv> meta (resp rq)"
    and "dst \<equiv> absoluteUrl_String x (url (mod_state d)) (meta (resp rq))"
  shows "(target = [] \<longrightarrow>
           source (doc d') = errorPageSource x invalidRedirect_GmStatusCode None \<and>
           state d' = ready_RequestState \<and> posted d' = posted d)
       \<and> (target \<noteq> [] \<and> redirectCount d \<ge> 5 \<longrightarrow>
           source (doc d') = errorPageSource x tooManyRedirects_GmStatusCode (Some dst) \<and>
           state d' = ready_RequestState \<and> posted d' = posted d \<and> request d' = None)
       \<and> (target \<noteq> [] \<and> redirectCount d < 5 \<and>
           equalCase (urlScheme_String x dst) (urlScheme_String x (url (mod_state d))) \<longrightarrow>
           posted d' = posted d @ [open_redirect (redirectCount d + 1) dst] \<and>
           source (doc d') = source (doc d) \<and>
           state d' = receivedPartialResponse_RequestState \<and> request d' = None)
       \<and> (target \<noteq> [] \<and> redirectCount d < 5 \<and>
           \<not> equalCase (urlScheme_String x dst) (urlScheme_String x (url (mod_state d))) \<longrightarrow>
           source (doc d') = errorPageSource x schemeChangeRedirect_GmStatusCode (Some dst) \<and>
           state d' = ready_RequestState \<and> posted d' = posted d \<and> request d' = None)
       \<and> (target \<noteq> [] \<and>
           \<not> equalCase (urlScheme_String x dst) (urlScheme_String x (url (mod_state d))) \<longrightarrow>
           posted d' = posted d \<and> state d' = ready_RequestState)
       \<and> (\<forall>ts t6. redirectCount d = 0 \<and> length ts = 5 \<and> sameSchemeChain x env clk ts d \<and>
                  t6 \<noteq> [] \<longrightarrow>
           (\<forall>k\<le>5. state (redirectChain x env clk (take k ts) d) = fetching_RequestState \<and>
                   redirectCount (redirectChain x env clk (take k ts) d) = int k \<and>
                   openCount (redirectChain x env clk (take k ts) d) = openCount d + k) \<and>
           state (redirectChain x env clk (ts @ [t6]) d) = ready_RequestState \<and>
           source (doc (redirectChain x env clk (ts @ [t6]) d)) =
             errorPageSource x tooManyRedirects_GmStatusCode
               (Some (absoluteUrl_String x
                        (url (mod_state (redirectChain x env clk ts d))) t6)) \<and>
           openCount (redirectChain x env clk (ts @ [t6]) d) = openCount d + 5)"
proof -
  note eff = checkResponse_redirect_effects [OF rq st cat, of x env clk,
      folded d'_def dst_def target_def]
  have 1: "target = [] \<longrightarrow>
           source (doc d') = errorPageSource x invalidRedirect_GmStatusCode None \<and>
           state d' = ready_RequestState \<and> posted d' = posted d"
    using eff(1) by blast
  have 2: "target \<noteq> [] \<and> redirectCount d \<ge> 5 \<longrightarrow>
           source (doc d') = errorPageSource x tooManyRedirects_GmStatusCode (Some dst) \<and>
           state d' = ready_RequestState \<and> posted d' = posted d \<and> request d' = None"
    using eff(2) by blast
  have 3: "target \<noteq> [] \<and> redirectCount d < 5 \<and>
           equalCase (urlScheme_String x dst) (urlScheme_String x (url (mod_state d))) \<longrightarrow>
           posted d' = posted d @ [open_redirect (redirectCount d + 1) dst] \<and>
           source (doc d') = source (doc d) \<and>
           state d' = receivedPartialResponse_RequestState \<and> request d' = None"
    using eff(3) by blast
  have 4: "target \<noteq> [] \<and> redirectCount d < 5 \<and>
           \<not> equalCase (urlScheme_String x dst) (urlScheme_String x (url (mod_state d))) \<longrightarrow>
           source (doc d') = errorPageSource x schemeChangeRedirect_GmStatusCode (Some dst) \<and>
           state d' = ready_RequestState \<and> posted d' = posted d \<and> request d' = None"
    using eff(4) by blast
  have 5: "target \<noteq> [] \<and>
           \<not> equalCase (urlScheme_String x dst) (urlScheme_String x (url (mod_state d))) \<longrightarrow>
           posted d' = posted d \<and> state d' = ready_RequestState"
    using 2 4 by (cases "redirectCount d \<ge> 5") auto
  have 6: "\<forall>ts t6. redirectCount d = 0 \<and> length ts = 5 \<and> sameSchemeChain x env clk ts d \<and>
                  t6 \<noteq> [] \<longrightarrow>
           (\<forall>k\<le>5. state (redirectChain x env clk (take k ts) d) = fetching_RequestState \<and>
                   redirectCount (redirectChain x env clk (take k ts) d) = int k \<and>
                   openCount (redirectChain x env clk (take k ts) d) = openCount d + k) \<and>
           state (redirectChain x env clk (ts @ [t6]) d) = ready_RequestState \<and>
           source (doc (redirectChain x env clk (ts @ [t6]) d)) =
             errorPageSource x tooManyRedirects_GmStatusCode
               (Some (absoluteUrl_String x
                        (url (mod_state (redirectChain x env clk ts d))) t6)) \<and>
           openCount (redirectChain x env clk (ts @ [t6]) d) = openCount d + 5"
  proof (intro allI impI, elim conjE)
    fix ts :: "string list" and t6 :: string
    assume z: "redirectCount d = 0" and five: "length ts = 5"
      and same: "sameSchemeChain x env clk ts d" and t: "t6 \<noteq> []"
    have a: "\<forall>k\<le>5. state (redirectChain x env clk (take k ts) d) = fetching_RequestState \<and>
                   redirectCount (redirectChain x env clk (take k ts) d) = int k \<and>
                   openCount (redirectChain x env clk (take k ts) d) = openCount d + k"
    proof (intro allI impI)
      fix k :: nat
      assume k: "k \<le> 5"
      have len: "length (take k ts) = k" using k five by simp
      show "state (redirectChain x env clk (take k ts) d) = fetching_RequestState \<and>
            redirectCount (redirectChain x env clk (take k ts) d) = int k \<and>
            openCount (redirectChain x env clk (take k ts) d) = openCount d + k"
        using redirect_chain_follow [OF st sameSchemeChain_take [OF same, of k]] z k len
        by simp
    qed
    show "(\<forall>k\<le>5. state (redirectChain x env clk (take k ts) d) = fetching_RequestState \<and>
                   redirectCount (redirectChain x env clk (take k ts) d) = int k \<and>
                   openCount (redirectChain x env clk (take k ts) d) = openCount d + k) \<and>
           state (redirectChain x env clk (ts @ [t6]) d) = ready_RequestState \<and>
           source (doc (redirectChain x env clk (ts @ [t6]) d)) =
             errorPageSource x tooManyRedirects_GmStatusCode
               (Some (absoluteUrl_String x
                        (url (mod_state (redirectChain x env clk ts d))) t6)) \<and>
           openCount (redirectChain x env clk (ts @ [t6]) d) = openCount d + 5"
      using a redirect_chain_sixth [OF st z five same t] by blast
  qed
  from 1 2 3 4 5 6 show ?thesis by blast
qed

lemma sampleFetching_fields [simp]:
  "request (sampleFetching u n t) = Some (redirectTo t)"
  "state (sampleFetching u n t) = fetching_RequestState"
  "redirectCount (sampleFetching u n t) = n"
  "url (mod_state (sampleFetching u n t)) = u"
  "posted (sampleFetching u n t) = [document_request_started u]"
  by (simp_all add: sampleFetching_def init_DocumentWidget_def)

lemma sample_schemes:
  "urlScheme_String sampleExt ''gemini://example/'' = ''gemini''"
  "urlScheme_String sampleExt ''gemini://example/b'' = ''gemini''"
  "urlScheme_String sampleExt ''https://example/'' = ''https''"
  "absoluteUrl_String sampleExt u t = t"
  by (simp_all add: sampleExt_def)

text \<open>
  With the redirect count at 5, a redirect from \<open>gemini\<close> to \<open>https\<close> gives the
  too-many-redirects page, not the scheme-change page.
\<close>

theorem redirect_scheme_change_counterexample:
  "\<not> equalCase (urlScheme_String sampleExt
                   (absoluteUrl_String sampleExt ''gemini://example/'' ''https://example/''))
       (urlScheme_String sampleExt ''gemini://example/'')
   \<and> source (doc (checkResponse_DocumentWidget sampleExt sampleEnv sampleClock
                    (sampleFetching ''gemini://example/'' 5 ''https://example/''))) \<noteq>
       errorPageSource sampleExt schemeChangeRedirect_GmStatusCode (Some ''https://example/'')
   \<and> source (doc (checkResponse_DocumentWidget sampleExt sampleEnv sampleClock
                    (sampleFetching ''gemini://example/'' 5 ''https://example/''))) =
       errorPageSource sampleExt tooManyRedirects_GmStatusCode (Some ''https://example/'')"
proof -
  have neq: "\<not> equalCase ''https'' ''gemini''"
    by (simp add: equalCase_def lower_String_def toLower_def)
  have page: "source (doc (checkResponse_DocumentWidget sampleExt sampleEnv sampleClock
                    (sampleFetching ''gemini://example/'' 5 ''https://example/''))) =
       errorPageSource sampleExt tooManyRedirects_GmStatusCode (Some ''https://example/'')"
    using checkResponse_redirect_effects(2)
      [of "sampleFetching ''gemini://example/'' 5 ''https://example/''"
          "redirectTo ''https://example/''" sampleExt sampleEnv sampleClock]
    by (simp add: sample_schemes)
  have diff: "errorPageSource sampleExt tooManyRedirects_GmStatusCode (Some ''https://example/'')
              \<noteq> errorPageSource sampleExt schemeChangeRedirect_GmStatusCode
                    (Some ''https://example/'')"
    by (simp add: errorPageSource_def sampleExt_def Let_def)
  show ?thesis
    using neq page diff by (simp add: sample_schemes)
qed

lemma sample_chain_same:
  assumes "state d = fetching_RequestState"
    and "redirectCount d + int n \<le> 5"
    and "urlScheme_String sampleExt (url (mod_state d)) = ''gemini''"
  shows "sameSchemeChain sampleExt env clk (replicate n ''gemini://example/b'') d"
  using assms
proof (induction n arbitrary: d)
  case 0
  then show ?case by simp
next
  case (Suc n)
  let ?d1 = "redirectRound sampleExt env clk ''gemini://example/b'' d"
  have eq: "equalCase ''gemini'' ''gemini''"
    by (simp add: equalCase_def)
  have same: "equalCase (urlScheme_String sampleExt
                 (absoluteUrl_String sampleExt (url (mod_state d)) ''gemini://example/b''))
               (urlScheme_String sampleExt (url (mod_state d)))"
    using eq by (simp add: sample_schemes Suc.prems(3))
  have lt: "redirectCount d < 5" using Suc.prems(2) by simp
  have one: "state ?d1 = fetching_RequestState \<and> redirectCount ?d1 = redirectCount d + 1
             \<and> openCount ?d1 = openCount d + 1
             \<and> url (mod_state ?d1) = urlFragmentStripped_String sampleExt
                 (absoluteUrl_String sampleExt (url (mod_state d)) ''gemini://example/b'')"
    using redirectRound_follow [OF Suc.prems(1) lt _ same, of env clk] by simp
  then have u: "url (mod_state ?d1) = ''gemini://example/b''"
    by (simp add: sample_schemes) (simp add: sampleExt_def)
  have "sameSchemeChain sampleExt env clk (replicate n ''gemini://example/b'') ?d1"
    using one Suc.prems(2) u by (intro Suc.IH) (simp_all add: sample_schemes)
  then show ?case using same by simp
qed

theorem redirect_policy_witness:
  "request (sampleFetching ''gemini://example/'' 0 ''gemini://example/b'') =
     Some (redirectTo ''gemini://example/b'')
   \<and> state (sampleFetching ''gemini://example/'' 0 ''gemini://example/b'') = fetching_RequestState
   \<and> category_GmStatusCode (status_GmRequest (redirectTo ''gemini://example/b'')) =
       categoryRedirect_GmStatusCode
   \<and> equalCase (urlScheme_String sampleExt ''gemini://example/b'')
       (urlScheme_String sampleExt ''gemini://example/'')
   \<and> posted (checkResponse_DocumentWidget sampleExt sampleEnv sampleClock
               (sampleFetching ''gemini://example/'' 0 ''gemini://example/b'')) =
       [document_request_started ''gemini://example/'', open_redirect 1 ''gemini://example/b'']
   \<and> state (checkResponse_DocumentWidget sampleExt sampleEnv sampleClock
               (sampleFetching ''gemini://example/'' 4 ''https://example/'')) = ready_RequestState
   \<and> source (doc (checkResponse_DocumentWidget sampleExt sampleEnv sampleClock
               (sampleFetching ''gemini://example/'' 4 ''https://example/''))) =
       errorPageSource sampleExt schemeChangeRedirect_GmStatusCode (Some ''https://example/'')
   \<and> sameSchemeChain sampleExt sampleEnv sampleClock (replicate 5 ''gemini://example/b'')
       (sampleFetching ''gemini://example/'' 0 ''gemini://example/b'')
   \<and> state (redirectChain sampleExt sampleEnv sampleClock (replicate 5 ''gemini://example/b'')
       (sampleFetching ''gemini://example/'' 0 ''gemini://example/b'')) = fetching_RequestState
   \<and> redirectCount (redirectChain sampleExt sampleEnv sampleClock
       (replicate 5 ''gemini://example/b'')
       (sampleFetching ''gemini://example/'' 0 ''gemini://example/b'')) = 5
   \<and> openCount (redirectChain sampleExt sampleEnv sampleClock
       (replicate 5 ''gemini://example/b'')
       (sampleFetching ''gemini://example/'' 0 ''gemini://example/b'')) = 5
   \<and> state (redirectChain sampleExt sampleEnv sampleClock (replicate 6 ''gemini://example/b'')
       (sampleFetching ''gemini://example/'' 0 ''gemini://example/b'')) = ready_RequestState
   \<and> source (doc (redirectChain sampleExt sampleEnv sampleClock
       (replicate 6 ''gemini://example/b'')
       (sampleFetching ''gemini://example/'' 0 ''gemini://example/b''))) =
       errorPageSource sampleExt tooManyRedirects_GmStatusCode (Some ''gemini://example/b'')
   \<and> openCount (redirectChain sampleExt sampleEnv sampleClock
       (replicate 6 ''gemini://example/b'')
       (sampleFetching ''gemini://example/'' 0 ''gemini://example/b'')) = 5"
proof -
  let ?d0 = "sampleFetching ''gemini://example/'' 0 ''gemini://example/b''"
  let ?ts = "replicate 5 ''gemini://example/b''"
  have eq: "equalCase ''gemini'' ''gemini''"
    by (simp add: equalCase_def)
  have neq: "\<not> equalCase ''https'' ''gemini''"
    by (simp add: equalCase_def lower_String_def toLower_def)
  have same: "sameSchemeChain sampleExt sampleEnv sampleClock ?ts ?d0"
    by (rule sample_chain_same) (simp_all add: sample_schemes)
  have oc: "openCount ?d0 = 0"
    by (simp add: openCount_def)
  have six: "replicate 6 ''gemini://example/b'' = ?ts @ [''gemini://example/b'']"
    by (simp add: numeral_eq_Suc)
  note p = redirect_policy
      [of ?d0 "redirectTo ''gemini://example/b''" sampleExt sampleEnv sampleClock]
  have chain: "(\<forall>k\<le>5. state (redirectChain sampleExt sampleEnv sampleClock (take k ?ts) ?d0) =
                     fetching_RequestState \<and>
                   redirectCount (redirectChain sampleExt sampleEnv sampleClock (take k ?ts) ?d0) =
                     int k \<and>
                   openCount (redirectChain sampleExt sampleEnv sampleClock (take k ?ts) ?d0) =
                     openCount ?d0 + k) \<and>
           state (redirectChain sampleExt sampleEnv sampleClock (?ts @ [''gemini://example/b''])
                    ?d0) = ready_RequestState \<and>
           source (doc (redirectChain sampleExt sampleEnv sampleClock
                    (?ts @ [''gemini://example/b'']) ?d0)) =
             errorPageSource sampleExt tooManyRedirects_GmStatusCode
               (Some (absoluteUrl_String sampleExt
                        (url (mod_state (redirectChain sampleExt sampleEnv sampleClock ?ts ?d0)))
                        ''gemini://example/b'')) \<and>
           openCount (redirectChain sampleExt sampleEnv sampleClock
                    (?ts @ [''gemini://example/b'']) ?d0) = openCount ?d0 + 5"
    using p [THEN conjunct2, THEN conjunct2, THEN conjunct2, THEN conjunct2, THEN conjunct2,
        rule_format, of ?ts "''gemini://example/b''"] same
    by simp
  then have five: "state (redirectChain sampleExt sampleEnv sampleClock (take 5 ?ts) ?d0) =
                     fetching_RequestState \<and>
                   redirectCount (redirectChain sampleExt sampleEnv sampleClock (take 5 ?ts) ?d0) =
                     int 5 \<and>
                   openCount (redirectChain sampleExt sampleEnv sampleClock (take 5 ?ts) ?d0) =
                     openCount ?d0 + 5"
    by blast
  have t5: "take 5 ?ts = ?ts" by simp
  show ?thesis
    using p
      redirect_policy
      [of "sampleFetching ''gemini://example/'' 4 ''https://example/''"
          "redirectTo ''https://example/''" sampleExt sampleEnv sampleClock]
      eq neq same five chain
    unfolding six t5 oc
    by (simp add: sample_schemes)
qed

section \<open>The scroll position after a resize\<close>

lemma setValue_Anim_zero:
  "setValue_Anim a v 0 tk ft = a\<lparr> anim_from := v, anim_to := v, anim_when := ft, anim_due := ft \<rparr>"
  by (simp add: setValue_Anim_def)

lemma addVisible_no_content:
  assumes "decoration_GmRunFlag \<in> runFlags (runAt d p) \<or> mediaId (runAt d p) \<noteq> 0"
  shows "firstVisibleRun (addVisible_DocumentWidget d p) = firstVisibleRun d"
  using assms by (auto simp: addVisible_DocumentWidget_def Let_def)

lemma runAt_cong: "doc d' = doc d \<Longrightarrow> runAt d' p = runAt d p"
  by (simp add: runAt_def)

lemma foldl_addVisible_no_content:
  assumes "\<forall>p\<in>set ps. decoration_GmRunFlag \<in> runFlags (runAt d p) \<or> mediaId (runAt d p) \<noteq> 0"
  shows "firstVisibleRun (foldl addVisible_DocumentWidget d ps) = firstVisibleRun d"
  using assms
proof (induction ps arbitrary: d)
  case Nil
  then show ?case by simp
next
  case (Cons p ps)
  have r: "\<And>q. runAt (addVisible_DocumentWidget d p) q = runAt d q"
    by (rule runAt_cong) simp
  have "firstVisibleRun (foldl addVisible_DocumentWidget (addVisible_DocumentWidget d p) ps) =
        firstVisibleRun (addVisible_DocumentWidget d p)"
    using Cons.prems by (intro Cons.IH) (simp add: r)
  also have "\<dots> = firstVisibleRun d"
    using Cons.prems by (intro addVisible_no_content) simp
  finally show ?case by simp
qed

lemma render_GmDocument_indices:
  "p \<in> set (render_GmDocument dc rng) \<Longrightarrow> p < length (layout dc)"
  by (simp add: render_GmDocument_def)

lemma updateVisible_no_content:
  assumes "\<forall>p<length (layout (doc d)).
             decoration_GmRunFlag \<in> runFlags (runAt d p) \<or> mediaId (runAt d p) \<noteq> 0"
  shows "firstVisibleRun (updateVisible_DocumentWidget env clk d) = None"
proof -
  define d2 where "d2 = d\<lparr> flags := (if centerShortDocs env \<or> startsWithCase (url (mod_state d)) ''about:'' \<or>
                    \<not> isSuccess_GmStatusCode (sourceStatus d)
                    then insert centerVertically_DocumentWidgetFlag (flags d)
                    else flags d - {centerVertically_DocumentWidgetFlag}),
                 visibleLinks := [], visibleWideRuns := [], visibleMedia := [],
                 firstVisibleRun := None \<rparr>"
  have r: "\<And>q. runAt d2 q = runAt d q"
    by (rule runAt_cong) (simp add: d2_def)
  have dc: "doc d2 = doc d" by (simp add: d2_def)
  have "\<And>rng. firstVisibleRun (foldl addVisible_DocumentWidget d2 (render_GmDocument (doc d2) rng))
               = firstVisibleRun d2"
  proof (rule foldl_addVisible_no_content, rule ballI)
    fix rng p
    assume "p \<in> set (render_GmDocument (doc d2) rng)"
    then have "p < length (layout (doc d))"
      using render_GmDocument_indices [of p "doc d2" rng] by (simp add: dc)
    then show "decoration_GmRunFlag \<in> runFlags (runAt d2 p) \<or> mediaId (runAt d2 p) \<noteq> 0"
      using assms by (simp add: r)
  qed
  then have "\<And>rng. firstVisibleRun (foldl addVisible_DocumentWidget d2
                          (render_GmDocument (doc d2) rng)) = None"
    by (simp add: d2_def)
  then show ?thesis
    by (simp add: updateVisible_DocumentWidget_def Let_def d2_def)
qed

lemma resized_unanchored:
  assumes "firstVisibleRun d = None"
  shows "handleCommand_window_resized x env clk d =
           invalidate_DocumentWidget
             (documentRunsInvalidated_DocumentWidget
                (d\<lparr> flags := flags d - {showLinkNumbers_DocumentWidgetFlag},
                    doc := setWidth_GmDocument x (doc d) (documentWidth env) \<rparr>))"
  using assms
  by (simp add: handleCommand_window_resized_def
      updateDocumentWidthRetainingScrollPosition_DocumentWidget_def Let_def)

lemma sampleImagePage_fields [simp]:
  "scrollY sampleImagePage = init_Anim 0 (ticks sampleClock)"
  "pageMargin sampleImagePage = 5"
  "layout (doc sampleImagePage) =
     [(sampleRun 0 1000 400)\<lparr> mediaId := 1, mediaType := image_GmRunMediaType \<rparr>]"
  "docHeight (doc sampleImagePage) = 1000"
  "siteBanner (doc sampleImagePage) = None"
  by (simp_all add: sampleImagePage_def init_DocumentWidget_def new_GmDocument_def)

lemma sample_scrollMax:
  "scrollMax_DocumentWidget sampleEnv sampleImagePage = 640"
  by (simp add: scrollMax_DocumentWidget_def sampleEnv_def height_Rect_def
      hasSiteBanner_GmDocument_def)

lemma roundEven_of_int [simp]: "roundEven (real_of_int k) = k"
  by (simp add: roundEven_def)

lemma roundFloat_of_int:
  assumes "\<bar>n\<bar> < 2 ^ 24"
  shows "roundFloat (real_of_int n) = real_of_int n"
proof (cases "n = 0")
  case True
  then show ?thesis by (simp add: roundFloat_def)
next
  case False
  define m where "m = \<bar>n\<bar>"
  have m: "0 < m" "m < 2 ^ 24" using False assms by (simp_all add: m_def)
  have a: "\<bar>real_of_int n\<bar> = real_of_int m" by (simp add: m_def)
  have "1 \<le> m" using m(1) by simp
  then have one: "1 \<le> real_of_int m" by linarith
  have ex: "floatExponent (real_of_int n) = bitlen m - 1"
    unfolding floatExponent_def a using one by simp
  have "bitlen m \<le> 24"
    using m by (simp add: bitlen_le_iff_power)
  then have neg: "bitlen m - 1 - 23 \<le> 0" by simp
  define k where "k = nat (- (bitlen m - 1 - 23))"
  have r: "real_of_int n * 2 ^ k = real_of_int (n * 2 ^ k)" by simp
  show ?thesis
  proof (cases "bitlen m - 1 - 23 = 0")
    case True
    then show ?thesis using False by (simp add: roundFloat_def ex Let_def)
  next
    case False
    then have lt: "\<not> bitlen m - 1 - 23 \<ge> 0" using neg by simp
    have "roundFloat (real_of_int n) = real_of_int (roundEven (real_of_int n * 2 ^ k)) / 2 ^ k"
      using \<open>n \<noteq> 0\<close> lt unfolding roundFloat_def ex Let_def k_def by simp
    also have "\<dots> = real_of_int n"
      unfolding r roundEven_of_int by simp
    finally show ?thesis .
  qed
qed

lemma roundFloat_numeral:
  "(numeral k :: int) < 2 ^ 24 \<Longrightarrow> roundFloat (numeral k) = numeral k"
  using roundFloat_of_int [of "numeral k"] by simp

lemma roundFloat_zero [simp]: "roundFloat 0 = 0"
  by (simp add: roundFloat_def)

lemma roundFloat_examples:
  "roundFloat 640 = 640"
  "roundFloat 16777217 = 16777216"
  "roundFloat 16777219 = 16777220"
  "toInt32 (roundFloat (640 + roundFloat 2147483647)) = - 2147483648"
     apply (simp add: roundFloat_numeral)
    apply (simp add: roundFloat_def floatExponent_def compute_bitlen roundEven_def Let_def)
   apply (simp add: roundFloat_def floatExponent_def compute_bitlen roundEven_def Let_def)
  apply (simp add: roundFloat_def floatExponent_def compute_bitlen roundEven_def Let_def toInt32_def toInt_def)
  done
lemma scrollMax_cong:
  "doc d' = doc d \<Longrightarrow> pageMargin d' = pageMargin d \<Longrightarrow>
   scrollMax_DocumentWidget env d' = scrollMax_DocumentWidget env d"
  by (simp add: scrollMax_DocumentWidget_def)

text \<open>\<open>scroll_DocumentWidget_(d, 0)\<close>, the call that clamps the scroll position.\<close>

lemma scroll_zero_scrollY:
  "scrollY (scroll_DocumentWidget env clk d 0) =
     (let destY0 = toInt32 (roundFloat (targetValue_Anim (scrollY d)));
          destY1 = (if destY0 < 0 then 0 else destY0);
          destY = (if scrollMax_DocumentWidget env d > 0
                   then iMin destY1 (scrollMax_DocumentWidget env d) else 0)
      in (scrollY d)\<lparr> anim_from := roundFloat (real_of_int destY),
                      anim_to := roundFloat (real_of_int destY),
                      anim_when := frameTime clk, anim_due := frameTime clk \<rparr>)"
  by (simp add: scroll_DocumentWidget_def smoothScroll_DocumentWidget_def Let_def
      setValue_Anim_zero)

lemma scroll_frame [simp]:
  "doc (scroll_DocumentWidget env clk d offset) = doc d"
  "pageMargin (scroll_DocumentWidget env clk d offset) = pageMargin d"
  by (simp_all add: scroll_DocumentWidget_def smoothScroll_DocumentWidget_def Let_def)

lemma sample_bottom:
  "scrollY (handleCommand_scroll_bottom sampleEnv sampleClock sampleImagePage) =
     \<lparr> anim_from = 640, anim_to = 640, anim_when = frameTime sampleClock,
       anim_due = frameTime sampleClock, anim_flags = {} \<rparr>"
  "doc (handleCommand_scroll_bottom sampleEnv sampleClock sampleImagePage) = doc sampleImagePage"
  "pageMargin (handleCommand_scroll_bottom sampleEnv sampleClock sampleImagePage) = 5"
  "firstVisibleRun (handleCommand_scroll_bottom sampleEnv sampleClock sampleImagePage) = None"
proof -
  let ?d = "sampleImagePage\<lparr> scrollY := init_Anim (roundFloat (real_of_int
              (scrollMax_DocumentWidget sampleEnv sampleImagePage))) (ticks sampleClock) \<rparr>"
  let ?s = "scroll_DocumentWidget sampleEnv sampleClock ?d 0"
  have cur: "isCurrentDocument sampleEnv" by (simp add: sampleEnv_def)
  have h: "handleCommand_scroll_bottom sampleEnv sampleClock sampleImagePage =
             updateVisible_DocumentWidget sampleEnv sampleClock ?s"
    by (simp add: handleCommand_scroll_bottom_def cur)
  have m: "\<And>a. scrollMax_DocumentWidget sampleEnv (sampleImagePage\<lparr> scrollY := a \<rparr>) = 640"
    using sample_scrollMax by (simp add: scrollMax_DocumentWidget_def)
  have s: "scrollY ?s =
     \<lparr> anim_from = 640, anim_to = 640, anim_when = frameTime sampleClock,
       anim_due = frameTime sampleClock, anim_flags = {} \<rparr>"
    unfolding scroll_zero_scrollY m sample_scrollMax
    by (simp add: Let_def targetValue_Anim_def init_Anim_def roundFloat_numeral toInt32_def
        toInt_def iMin_def)
  show "scrollY (handleCommand_scroll_bottom sampleEnv sampleClock sampleImagePage) =
     \<lparr> anim_from = 640, anim_to = 640, anim_when = frameTime sampleClock,
       anim_due = frameTime sampleClock, anim_flags = {} \<rparr>"
    unfolding h using s by simp
  show dc: "doc (handleCommand_scroll_bottom sampleEnv sampleClock sampleImagePage) =
          doc sampleImagePage"
    unfolding h by simp
  show "pageMargin (handleCommand_scroll_bottom sampleEnv sampleClock sampleImagePage) = 5"
    unfolding h by simp
  have "\<forall>p<length (layout (doc ?s)).
          decoration_GmRunFlag \<in> runFlags (runAt ?s p) \<or> mediaId (runAt ?s p) \<noteq> 0"
    by (simp add: runAt_def sampleRun_def)
  then show "firstVisibleRun (handleCommand_scroll_bottom sampleEnv sampleClock sampleImagePage)
             = None"
    unfolding h by (rule updateVisible_no_content)
qed

lemma sample_resized:
  "scrollY (handleCommand_window_resized sampleExt sampleTallEnv sampleClock
              (handleCommand_scroll_bottom sampleEnv sampleClock sampleImagePage)) =
     \<lparr> anim_from = 640, anim_to = 640, anim_when = frameTime sampleClock,
       anim_due = frameTime sampleClock, anim_flags = {} \<rparr>"
  "\<And>env. scrollMax_DocumentWidget env
     (handleCommand_window_resized sampleExt sampleTallEnv sampleClock
        (handleCommand_scroll_bottom sampleEnv sampleClock sampleImagePage)) =
   scrollMax_DocumentWidget env sampleImagePage"
proof -
  let ?d1 = "handleCommand_scroll_bottom sampleEnv sampleClock sampleImagePage"
  let ?d2 = "handleCommand_window_resized sampleExt sampleTallEnv sampleClock ?d1"
  have r: "?d2 = invalidate_DocumentWidget
            (documentRunsInvalidated_DocumentWidget
             (?d1\<lparr> flags := flags ?d1 - {showLinkNumbers_DocumentWidgetFlag},
                   doc := setWidth_GmDocument sampleExt (doc ?d1)
                            (documentWidth sampleTallEnv) \<rparr>))"
    by (rule resized_unanchored) (rule sample_bottom(4))
  show "scrollY ?d2 =
     \<lparr> anim_from = 640, anim_to = 640, anim_when = frameTime sampleClock,
       anim_due = frameTime sampleClock, anim_flags = {} \<rparr>"
    unfolding r by (simp add: sample_bottom(1))
  have dc2: "doc ?d2 = setWidth_GmDocument sampleExt (doc sampleImagePage)
                         (documentWidth sampleTallEnv)"
    unfolding r by (simp add: sample_bottom(2))
  have pm2: "pageMargin ?d2 = 5"
    unfolding r by (simp add: sample_bottom(3))
  show "\<And>env. scrollMax_DocumentWidget env ?d2 = scrollMax_DocumentWidget env sampleImagePage"
    unfolding scrollMax_DocumentWidget_def dc2 pm2
    by (simp add: setWidth_GmDocument_def redoLayout_GmDocument_def sampleExt_def
        hasSiteBanner_GmDocument_def)
qed

lemma sample_tall_scrollMax:
  "scrollMax_DocumentWidget sampleTallEnv sampleImagePage = 140"
  by (simp add: scrollMax_DocumentWidget_def sampleTallEnv_def sampleEnv_def height_Rect_def
      hasSiteBanner_GmDocument_def)

text \<open>
  C6. The page holds one inline image, 1000 pixels high, in a window 400 pixels high, and
  is scrolled to the bottom: the scroll value is 640, the scroll maximum. The window is
  then made 900 pixels high. No text run is visible, so the resize has no run to keep in
  place and does not call \<open>scrollTo_DocumentWidget_\<close>: the scroll value stays 640 while the
  scroll maximum is now 140. The clamping call \<open>scroll_DocumentWidget_(d, 0)\<close>, which a
  resize with such a run makes, brings the value to 140.
\<close>

theorem window_resized_scroll_above_max:
  "value_Anim (scrollY (handleCommand_scroll_bottom sampleEnv sampleClock sampleImagePage))
     (frameTime sampleClock) = 640
   \<and> scrollMax_DocumentWidget sampleEnv
       (handleCommand_scroll_bottom sampleEnv sampleClock sampleImagePage) = 640
   \<and> value_Anim (scrollY (handleCommand_window_resized sampleExt sampleTallEnv sampleClock
                 (handleCommand_scroll_bottom sampleEnv sampleClock sampleImagePage)))
       (frameTime sampleClock) = 640
   \<and> scrollMax_DocumentWidget sampleTallEnv
       (handleCommand_window_resized sampleExt sampleTallEnv sampleClock
          (handleCommand_scroll_bottom sampleEnv sampleClock sampleImagePage)) = 140
   \<and> value_Anim (scrollY (scroll_DocumentWidget sampleTallEnv sampleClock
         (handleCommand_window_resized sampleExt sampleTallEnv sampleClock
            (handleCommand_scroll_bottom sampleEnv sampleClock sampleImagePage)) 0))
       (frameTime sampleClock) = 140"
proof -
  let ?d1 = "handleCommand_scroll_bottom sampleEnv sampleClock sampleImagePage"
  let ?d2 = "handleCommand_window_resized sampleExt sampleTallEnv sampleClock ?d1"
  have v1: "value_Anim (scrollY ?d1) (frameTime sampleClock) = 640"
    by (simp add: sample_bottom(1) value_Anim_def valueAt_Anim_def)
  have m1: "scrollMax_DocumentWidget sampleEnv ?d1 = 640"
    using scrollMax_cong [of ?d1 sampleImagePage sampleEnv] sample_scrollMax
    by (simp add: sample_bottom)
  have v2: "value_Anim (scrollY ?d2) (frameTime sampleClock) = 640"
    by (simp add: sample_resized(1) value_Anim_def valueAt_Anim_def)
  have m2: "scrollMax_DocumentWidget sampleTallEnv ?d2 = 140"
    by (simp add: sample_resized(2) sample_tall_scrollMax)
  have v3: "value_Anim (scrollY (scroll_DocumentWidget sampleTallEnv sampleClock ?d2 0))
              (frameTime sampleClock) = 140"
    unfolding scroll_zero_scrollY m2 sample_resized(1)
    by (simp add: Let_def targetValue_Anim_def roundFloat_numeral toInt32_def toInt_def
        iMin_def value_Anim_def valueAt_Anim_def)
  show ?thesis using v1 m1 v2 m2 v3 by simp
qed

theorem window_resized_scroll_above_max_witness:
  "\<not> value_Anim (scrollY (handleCommand_window_resized sampleExt sampleTallEnv sampleClock
                 (handleCommand_scroll_bottom sampleEnv sampleClock sampleImagePage)))
         (frameTime sampleClock)
       \<le> real_of_int (scrollMax_DocumentWidget sampleTallEnv
           (handleCommand_window_resized sampleExt sampleTallEnv sampleClock
              (handleCommand_scroll_bottom sampleEnv sampleClock sampleImagePage)))"
  using window_resized_scroll_above_max by simp

section \<open>The document format follows the MIME type\<close>


lemma text_gemini_type: "startsWith ''text/gemini'' ''text/''"
  by simp



















lemma setData_Media_fields [simp]:
  "source (setData_Media dc lnk m b p) = source dc"
  "format (setData_Media dc lnk m b p) = format dc"
  "mediaStore (setData_Media dc lnk m b p) =
     mediaStore dc @ [\<lparr> md_linkId = lnk, md_mime = m, md_data = b, md_partial = p \<rparr>]"
  by (simp_all add: setData_Media_def)








end
